theory Spec2Isabelle
  imports Main "HOL-Library.Char_ord" "HOL-Library.List_Lexorder" "HOL-Library.Multiset"
begin

section \<open>The booking backend of \<^verbatim>\<open>src/backend/server.js\<close>\<close>

text \<open>
  The server is one Express application over a PostgreSQL store. Each route handler is
  modelled as a function of the request and the store that returns the HTTP response
  (and the store after the handler, where the handler writes). The libraries the
  handlers call (\<^verbatim>\<open>bcryptjs\<close>, \<^verbatim>\<open>jsonwebtoken\<close>, \<^verbatim>\<open>pg\<close> and the
  input functions of PostgreSQL's types) are not code of this repository: they are
  fields of the record \<open>ext\<close>, passed to every handler. Failures of the connection to
  the store are not modelled: every statement reaches the store.
\<close>

subsection \<open>Values of a JSON request body\<close>

text \<open>
  \<^verbatim>\<open>express.json()\<close> parses the body into a JavaScript object. A property that the
  body lacks reads as \<^verbatim>\<open>undefined\<close>: the body is a map, and \<open>None\<close> is
  \<^verbatim>\<open>undefined\<close>. Numbers are the integer-valued ones, and a \<open>char\<close> is one
  character of a text.
\<close>

datatype jsval =
    JNull
  | JBool bool
  | JNum int
  | JStr string
  | JArr "jsval list"
  | JObj "(string \<times> jsval) list"

type_synonym body = "string \<Rightarrow> jsval option"

text \<open>JavaScript's truthiness, as \<^verbatim>\<open>!x\<close> reads it.\<close>

fun truthy :: "jsval option \<Rightarrow> bool" where
  "truthy None = False"
| "truthy (Some JNull) = False"
| "truthy (Some (JBool b)) = b"
| "truthy (Some (JNum n)) = (n \<noteq> 0)"
| "truthy (Some (JStr s)) = (s \<noteq> [])"
| "truthy (Some (JArr xs)) = True"
| "truthy (Some (JObj kvs)) = True"

subsection \<open>The tables of \<^verbatim>\<open>initDatabase\<close>\<close>

text \<open>
  One record per table, one field per column, in the order of the \<^verbatim>\<open>CREATE TABLE\<close>
  statements. A column without \<^verbatim>\<open>NOT NULL\<close> is an option, except the timestamps,
  which every statement of the server sets. \<^verbatim>\<open>DECIMAL(10,2)\<close> is held in hundredths.
  The types of \<^verbatim>\<open>DATE\<close>, \<^verbatim>\<open>TIME\<close> and \<^verbatim>\<open>JSONB\<close> values are parameters.
  The table \<^verbatim>\<open>notifications\<close> is read and written by no route and is left out.
\<close>

type_synonym timestamp = int

record user =
  u_id :: int
  u_email :: string
  u_password :: string
  u_role :: "string option"
  fcm_token :: "string option"
  u_created_at :: timestamp

record service =
  s_id :: int
  s_name :: string
  duration :: int
  price :: int
  description :: "string option"
  active :: "bool option"
  s_created_at :: timestamp

record ('d, 't, 'j) appointment =
  a_id :: int
  client_name :: string
  client_phone :: "string option"
  client_email :: "string option"
  pet_name :: string
  pet_breed :: "string option"
  service_id :: "int option"
  appointment_date :: 'd
  appointment_time :: 't
  a_notes :: "string option"
  status :: "string option"
  rejection_reason :: "string option"
  proposed_changes :: "'j option"
  created_at :: timestamp
  updated_at :: timestamp

text \<open>
  The store: the three tables, rows in insertion order, the last value that the
  sequence behind \<^verbatim>\<open>appointments.id SERIAL\<close> has handed out, and the latest
  \<^verbatim>\<open>CURRENT_TIMESTAMP\<close> that the store has written into a row. The store's clock
  does not run backwards: the \<^verbatim>\<open>CURRENT_TIMESTAMP\<close> of a statement is
  \<open>last_timestamp\<close> plus the time that has passed since, which is not negative.
\<close>

record ('d, 't, 'j) store =
  users :: "user list"
  services :: "service list"
  appointments :: "('d, 't, 'j) appointment list"
  appointments_id_seq :: int
  last_timestamp :: timestamp

subsection \<open>The external collaborators\<close>

record jwt_payload =
  jwt_userId :: int
  jwt_email :: string
  jwt_iat :: int
  jwt_exp :: "int option"

text \<open>
  \<^item> \<open>env_JWT_SECRET\<close>: \<^verbatim>\<open>process.env.JWT_SECRET\<close>;
  \<^item> \<open>bcrypt_hash\<close>, \<open>bcrypt_compare\<close>: \<^verbatim>\<open>bcrypt.hash(pw, 10)\<close> and
    \<^verbatim>\<open>bcrypt.compare(pw, hash)\<close> on strings; the comparison is \<open>None\<close> where the
    library rejects (a stored text that it cannot read as a hash);
  \<^item> \<open>jwt_encode\<close>: the signed compact serialisation of a payload under a secret;
    \<open>jwt_decode\<close>: the payload of a token that is well formed and whose signature is
    valid under the secret, \<open>None\<close> otherwise;
  \<^item> \<open>number_toString\<close>, \<open>arrayString\<close>, \<open>JSON_stringify\<close>: the text that
    \<^verbatim>\<open>pg\<close> sends for a number, an array and an object
    (\<open>JSON_stringify\<close> is also the \<^verbatim>\<open>JSON.stringify\<close> of the status route);
  \<^item> \<open>int4in\<close>, \<open>date_in\<close>, \<open>time_in\<close>, \<open>jsonb_in\<close>: PostgreSQL's input
    functions of \<^verbatim>\<open>INTEGER\<close>, \<^verbatim>\<open>DATE\<close>, \<^verbatim>\<open>TIME\<close> and \<^verbatim>\<open>JSONB\<close>,
    \<open>None\<close> where the text is not a value of the type.
\<close>

record ('d, 't, 'j) ext =
  env_JWT_SECRET :: "string option"
  bcrypt_hash :: "string \<Rightarrow> string"
  bcrypt_compare :: "string \<Rightarrow> string \<Rightarrow> bool option"
  jwt_encode :: "jwt_payload \<Rightarrow> string \<Rightarrow> string"
  jwt_decode :: "string \<Rightarrow> string \<Rightarrow> jwt_payload option"
  number_toString :: "int \<Rightarrow> string"
  arrayString :: "jsval list \<Rightarrow> string"
  JSON_stringify :: "jsval \<Rightarrow> string"
  int4in :: "string \<Rightarrow> int option"
  date_in :: "string \<Rightarrow> 'd option"
  time_in :: "string \<Rightarrow> 't option"
  jsonb_in :: "string \<Rightarrow> 'j option"

subsection \<open>Responses\<close>

record user_summary =
  us_id :: int
  us_email :: string
  us_role :: "string option"

datatype ('d, 't, 'j) payload =
    ErrorJson string
  | LoginJson string string user_summary
  | ServicesJson "service list"
  | CreatedJson string "('d, 't, 'j) appointment"
  | AppointmentJson "('d, 't, 'j) appointment"

text \<open>
  A response is the status code and the JSON body: \<^verbatim>\<open>res.status(c).json(b)\<close>;
  \<^verbatim>\<open>res.json(b)\<close> alone answers 200. The error taxonomy of the specification names
  the codes: BadRequest 400, Unauthorized 401, Forbidden 403, NotFound 404,
  InternalError 500.
\<close>

type_synonym ('d, 't, 'j) response = "nat \<times> ('d, 't, 'j) payload"

subsection \<open>The session token\<close>

text \<open>\<^verbatim>\<open>const JWT_SECRET = process.env.JWT_SECRET || 'fallback-secret-for-development'\<close>\<close>

definition JWT_SECRET :: "('d, 't, 'j) ext \<Rightarrow> string" where
  "JWT_SECRET E =
     (case env_JWT_SECRET E of
        None \<Rightarrow> ''fallback-secret-for-development''
      | Some k \<Rightarrow> if k = [] then ''fallback-secret-for-development'' else k)"

text \<open>
  \<^verbatim>\<open>jwt.sign(payload, secret, { expiresIn })\<close> at the clock \<open>clock\<close> (seconds): the
  library stamps \<^verbatim>\<open>iat\<close> with the clock and \<^verbatim>\<open>exp\<close> with \<^verbatim>\<open>iat + expiresIn\<close>.
  \<^verbatim>\<open>jwt.verify(token, secret)\<close>: a token that does not decode under the secret is
  refused, and so is one whose \<^verbatim>\<open>exp\<close> the clock has reached.
\<close>

datatype jwt_error = JsonWebTokenError | TokenExpiredError

definition jwt_sign ::
  "('d, 't, 'j) ext \<Rightarrow> int \<Rightarrow> int \<times> string \<Rightarrow> string \<Rightarrow> int \<Rightarrow> string" where
  "jwt_sign E clock claims secret expiresIn =
     jwt_encode E
       \<lparr>jwt_userId = fst claims, jwt_email = snd claims, jwt_iat = clock,
        jwt_exp = Some (clock + expiresIn)\<rparr>
       secret"

definition jwt_verify ::
  "('d, 't, 'j) ext \<Rightarrow> int \<Rightarrow> string \<Rightarrow> string \<Rightarrow> jwt_error + jwt_payload" where
  "jwt_verify E clock token secret =
     (case jwt_decode E token secret of
        None \<Rightarrow> Inl JsonWebTokenError
      | Some p \<Rightarrow>
          (case jwt_exp p of
             None \<Rightarrow> Inr p
           | Some e \<Rightarrow> if e \<le> clock then Inl TokenExpiredError else Inr p))"

subsection \<open>The gate of the protected routes: \<^verbatim>\<open>authenticateToken\<close>\<close>

text \<open>\<^verbatim>\<open>s.split(c)\<close> of JavaScript, for a separator of one character.\<close>

fun js_split :: "char \<Rightarrow> string \<Rightarrow> string list" where
  "js_split c [] = [[]]"
| "js_split c (x # xs) =
     (if x = c then [] # js_split c xs
      else (case js_split c xs of
              [] \<Rightarrow> [[x]]
            | w # ws \<Rightarrow> (x # w) # ws))"

text \<open>\<^verbatim>\<open>xs[i]\<close>: \<^verbatim>\<open>undefined\<close> past the end.\<close>

definition js_index :: "'a list \<Rightarrow> nat \<Rightarrow> 'a option" where
  "js_index xs i = (if i < length xs then Some (xs ! i) else None)"

text \<open>
  \<^verbatim>\<open>const token = authHeader && authHeader.split(' ')[1]\<close>: an absent header gives
  \<^verbatim>\<open>undefined\<close>, an empty one gives itself, any other its second part.
\<close>

definition header_token :: "string option \<Rightarrow> string option" where
  "header_token authHeader =
     (case authHeader of
        None \<Rightarrow> None
      | Some h \<Rightarrow> if h = [] then Some [] else js_index (js_split (CHR '' '') h) 1)"

text \<open>
  The middleware answers itself (\<open>Inl\<close>) or calls \<^verbatim>\<open>next()\<close> with the verified
  payload in \<^verbatim>\<open>req.user\<close> (\<open>Inr\<close>). \<open>clock\<close> is the server's clock in seconds.
\<close>

definition authenticateToken ::
  "('d, 't, 'j) ext \<Rightarrow> int \<Rightarrow> string option \<Rightarrow> ('d, 't, 'j) response + jwt_payload" where
  "authenticateToken E clock authHeader =
     (case header_token authHeader of
        None \<Rightarrow> Inl (401, ErrorJson ''Token di accesso richiesto'')
      | Some token \<Rightarrow>
          if token = [] then Inl (401, ErrorJson ''Token di accesso richiesto'')
          else (case jwt_verify E clock token (JWT_SECRET E) of
                  Inl err \<Rightarrow> Inl (403, ErrorJson ''Token non valido'')
                | Inr user \<Rightarrow> Inr user))"

subsection \<open>Query parameters, as \<^verbatim>\<open>pg\<close> sends them\<close>

text \<open>
  \<^verbatim>\<open>prepareValue\<close> of \<^verbatim>\<open>pg\<close>: \<^verbatim>\<open>null\<close> and \<^verbatim>\<open>undefined\<close> are SQL
  \<^verbatim>\<open>NULL\<close> (\<open>None\<close>), a string is sent as it is, any other value as its text.
\<close>

fun prepareValue :: "('d, 't, 'j) ext \<Rightarrow> jsval option \<Rightarrow> string option" where
  "prepareValue E None = None"
| "prepareValue E (Some JNull) = None"
| "prepareValue E (Some (JStr s)) = Some s"
| "prepareValue E (Some (JBool b)) = Some (if b then ''true'' else ''false'')"
| "prepareValue E (Some (JNum n)) = Some (number_toString E n)"
| "prepareValue E (Some (JArr xs)) = Some (arrayString E xs)"
| "prepareValue E (Some (JObj kvs)) = Some (JSON_stringify E (JObj kvs))"

subsection \<open>The store's checks on a parameter\<close>

text \<open>
  A statement that the store refuses raises; every handler catches and answers 500.
  The refusals that the parameters of the server's statements and the
  \<^verbatim>\<open>CREATE TABLE\<close> statements of \<^verbatim>\<open>initDatabase\<close> make possible are the model's
  errors.
\<close>

datatype pg_error =
    character_not_in_repertoire
  | string_data_right_truncation
  | invalid_text_representation
  | not_null_violation
  | unique_violation
  | foreign_key_violation
  | sequence_generator_limit_exceeded

definition and_then :: "'e + 'a \<Rightarrow> ('a \<Rightarrow> 'e + 'b) \<Rightarrow> 'e + 'b" where
  "and_then m f = (case m of Inl e \<Rightarrow> Inl e | Inr a \<Rightarrow> f a)"

text \<open>
  Every parameter arrives as text, and the store refuses a text that holds the
  character NUL, whatever the type of the parameter. A text without it is a value of
  \<^verbatim>\<open>TEXT\<close>.
\<close>

definition text_in :: "string \<Rightarrow> pg_error + string" where
  "text_in s = (if CHR 0x00 \<in> set s then Inl character_not_in_repertoire else Inr s)"

text \<open>
  \<^verbatim>\<open>VARCHAR(n)\<close>: a longer text is refused, unless all that exceeds \<open>n\<close> characters
  is spaces, which are cut.
\<close>

definition varchar :: "nat \<Rightarrow> string \<Rightarrow> pg_error + string" where
  "varchar n s =
     and_then (text_in s) (\<lambda>v.
       if length v \<le> n then Inr v
       else if list_all (\<lambda>c. c = CHR '' '') (drop n v) then Inr (take n v)
       else Inl string_data_right_truncation)"

text \<open>A type's input function on the text of a parameter.\<close>

definition input :: "(string \<Rightarrow> 'a option) \<Rightarrow> string \<Rightarrow> pg_error + 'a" where
  "input f s =
     and_then (text_in s) (\<lambda>v.
       case f v of None \<Rightarrow> Inl invalid_text_representation | Some x \<Rightarrow> Inr x)"

text \<open>\<^verbatim>\<open>NULL\<close> passes every conversion.\<close>

definition on_value :: "('a \<Rightarrow> pg_error + 'b) \<Rightarrow> 'a option \<Rightarrow> pg_error + 'b option" where
  "on_value f p =
     (case p of
        None \<Rightarrow> Inr None
      | Some x \<Rightarrow> (case f x of Inl e \<Rightarrow> Inl e | Inr y \<Rightarrow> Inr (Some y)))"

definition not_null :: "'a option \<Rightarrow> pg_error + 'a" where
  "not_null p = (case p of None \<Rightarrow> Inl not_null_violation | Some x \<Rightarrow> Inr x)"

subsection \<open>\<^verbatim>\<open>POST /api/auth/login\<close>\<close>

text \<open>
  \<^verbatim>\<open>bcrypt.compare(password, user.password)\<close> rejects when the password is not a
  string, and where the library rejects two strings (\<open>None\<close>); the handler's
  \<^verbatim>\<open>catch\<close> answers 500 then, as it does when the store refuses the query.
\<close>

definition bcrypt_compare_js :: "('d, 't, 'j) ext \<Rightarrow> jsval option \<Rightarrow> string \<Rightarrow> bool option" where
  "bcrypt_compare_js E password hash =
     (case password of
        Some (JStr p) \<Rightarrow> bcrypt_compare E p hash
      | _ \<Rightarrow> None)"

text \<open>
  \<^verbatim>\<open>SELECT * FROM users WHERE email = $1\<close>: the parameter is checked as every
  text is; \<^verbatim>\<open>NULL\<close> equals no email.
\<close>

definition select_users_by_email ::
  "('d, 't, 'j) store \<Rightarrow> string option \<Rightarrow> pg_error + user list" where
  "select_users_by_email s p =
     and_then (on_value text_in p) (\<lambda>v. Inr (filter (\<lambda>u. Some (u_email u) = v) (users s)))"

definition login ::
  "('d, 't, 'j) ext \<Rightarrow> int \<Rightarrow> ('d, 't, 'j) store \<Rightarrow> body \<Rightarrow> ('d, 't, 'j) response" where
  "login E clock s b =
     (let email = b ''email''; password = b ''password'' in
      if \<not> truthy email \<or> \<not> truthy password
      then (400, ErrorJson ''Email e password richiesti'')
      else (case select_users_by_email s (prepareValue E email) of
              Inl err \<Rightarrow> (500, ErrorJson ''Errore durante il login'')
            | Inr [] \<Rightarrow> (401, ErrorJson ''Credenziali non valide'')
            | Inr (user # rest) \<Rightarrow>
                (case bcrypt_compare_js E password (u_password user) of
                   None \<Rightarrow> (500, ErrorJson ''Errore durante il login'')
                 | Some validPassword \<Rightarrow>
                     if \<not> validPassword then (401, ErrorJson ''Credenziali non valide'')
                     else (200,
                           LoginJson ''Login effettuato con successo''
                             (jwt_sign E clock (u_id user, u_email user) (JWT_SECRET E) 86400)
                             \<lparr>us_id = u_id user, us_email = u_email user,
                              us_role = u_role user\<rparr>))))"

subsection \<open>\<^verbatim>\<open>GET /api/services\<close>\<close>

text \<open>
  \<^verbatim>\<open>SELECT * FROM services WHERE active = true ORDER BY name\<close>. The order of the
  names is the collation of the database: \<open>collate\<close> maps a name to its sort key.
\<close>

definition select_active_services ::
  "(string \<Rightarrow> 'k::linorder) \<Rightarrow> ('d, 't, 'j) store \<Rightarrow> service list" where
  "select_active_services collate s =
     sort_key (\<lambda>r. collate (s_name r)) (filter (\<lambda>r. active r = Some True) (services s))"

definition listServices ::
  "(string \<Rightarrow> 'k::linorder) \<Rightarrow> ('d, 't, 'j) store \<Rightarrow> ('d, 't, 'j) response" where
  "listServices collate s = (200, ServicesJson (select_active_services collate s))"

subsection \<open>\<^verbatim>\<open>POST /api/appointments\<close>\<close>

text \<open>
  The values of the nine columns that the \<^verbatim>\<open>INSERT\<close> names, each parameter
  converted to its column's type.
\<close>

definition appointment_values ::
  "('d, 't, 'j) ext \<Rightarrow> string option \<Rightarrow> string option \<Rightarrow> string option \<Rightarrow> string option \<Rightarrow>
   string option \<Rightarrow> string option \<Rightarrow> string option \<Rightarrow> string option \<Rightarrow> string option \<Rightarrow>
   pg_error +
   (string \<times> string option \<times> string option \<times> string \<times> string option \<times> int option \<times>
    'd \<times> 't \<times> string option)" where
  "appointment_values E p1 p2 p3 p4 p5 p6 p7 p8 p9 =
     and_then (and_then (on_value (varchar 255) p1) not_null) (\<lambda>cn.
     and_then (on_value (varchar 20) p2) (\<lambda>cp.
     and_then (on_value (varchar 255) p3) (\<lambda>ce.
     and_then (and_then (on_value (varchar 255) p4) not_null) (\<lambda>pn.
     and_then (on_value (varchar 255) p5) (\<lambda>pb.
     and_then (on_value (input (int4in E)) p6) (\<lambda>sid.
     and_then (and_then (on_value (input (date_in E)) p7) not_null) (\<lambda>d.
     and_then (and_then (on_value (input (time_in E)) p8) not_null) (\<lambda>t.
     and_then (on_value text_in p9) (\<lambda>n.
     Inr (cn, cp, ce, pn, pb, sid, d, t, n))))))))))"

text \<open>
  The \<^verbatim>\<open>INSERT ... RETURNING *\<close>, \<open>elapsed\<close> after the store's latest timestamp.
  The columns that the
  statement does not name take their defaults: \<^verbatim>\<open>id\<close> the next value of the
  sequence (an \<^verbatim>\<open>INTEGER\<close>, so at most 2147483647), \<^verbatim>\<open>status\<close> the text
  \<^verbatim>\<open>'pending'\<close>, \<^verbatim>\<open>rejection_reason\<close> and \<^verbatim>\<open>proposed_changes\<close> \<^verbatim>\<open>NULL\<close>, both
  timestamps \<^verbatim>\<open>CURRENT_TIMESTAMP\<close>. Then \<^verbatim>\<open>PRIMARY KEY\<close> and
  \<^verbatim>\<open>REFERENCES services(id)\<close> are checked; a value that the sequence handed out
  stays used when they refuse the row.
\<close>

definition insert_appointment ::
  "('d, 't, 'j) ext \<Rightarrow> nat \<Rightarrow> ('d, 't, 'j) store \<Rightarrow> string option \<Rightarrow> string option \<Rightarrow>
   string option \<Rightarrow> string option \<Rightarrow> string option \<Rightarrow> string option \<Rightarrow> string option \<Rightarrow>
   string option \<Rightarrow> string option \<Rightarrow>
   ('d, 't, 'j) store \<times> (pg_error + ('d, 't, 'j) appointment)" where
  "insert_appointment E elapsed s p1 p2 p3 p4 p5 p6 p7 p8 p9 =
     (case appointment_values E p1 p2 p3 p4 p5 p6 p7 p8 p9 of
        Inl e \<Rightarrow> (s, Inl e)
      | Inr (cn, cp, ce, pn, pb, sid, d, t, n) \<Rightarrow>
          if 2147483647 \<le> appointments_id_seq s
          then (s, Inl sequence_generator_limit_exceeded)
          else
            (let now = last_timestamp s + int elapsed;
                 i = appointments_id_seq s + 1;
                 s1 = s\<lparr>appointments_id_seq := i\<rparr>;
                 row = \<lparr>a_id = i, client_name = cn, client_phone = cp, client_email = ce,
                        pet_name = pn, pet_breed = pb, service_id = sid,
                        appointment_date = d, appointment_time = t, a_notes = n,
                        status = Some ''pending'', rejection_reason = None,
                        proposed_changes = None, created_at = now, updated_at = now\<rparr>
             in if i \<in> a_id ` set (appointments s) then (s1, Inl unique_violation)
                else if (case sid of None \<Rightarrow> False | Some k \<Rightarrow> k \<notin> s_id ` set (services s))
                then (s1, Inl foreign_key_violation)
                else (s1\<lparr>appointments := appointments s @ [row], last_timestamp := now\<rparr>,
                      Inr row)))"

definition createAppointment ::
  "('d, 't, 'j) ext \<Rightarrow> nat \<Rightarrow> ('d, 't, 'j) store \<Rightarrow> body \<Rightarrow>
   ('d, 't, 'j) store \<times> ('d, 't, 'j) response" where
  "createAppointment E elapsed s b =
     (let clientName = b ''clientName''; clientPhone = b ''clientPhone'';
          clientEmail = b ''clientEmail''; petName = b ''petName''; petBreed = b ''petBreed'';
          serviceId = b ''serviceId''; appointmentDate = b ''appointmentDate'';
          appointmentTime = b ''appointmentTime''; notes0 = b ''notes''
      in if \<not> truthy clientName \<or> \<not> truthy petName \<or> \<not> truthy serviceId \<or>
            \<not> truthy appointmentDate \<or> \<not> truthy appointmentTime
         then (s, (400, ErrorJson ''Campi obbligatori mancanti''))
         else
           (case insert_appointment E elapsed s
                   (prepareValue E clientName) (prepareValue E clientPhone)
                   (prepareValue E clientEmail) (prepareValue E petName)
                   (prepareValue E petBreed) (prepareValue E serviceId)
                   (prepareValue E appointmentDate) (prepareValue E appointmentTime)
                   (prepareValue E notes0) of
              (s', Inl err) \<Rightarrow> (s', (500, ErrorJson ''Errore creazione appuntamento''))
            | (s', Inr row) \<Rightarrow> (s', (200, CreatedJson ''Appuntamento creato con successo'' row))))"

subsection \<open>\<^verbatim>\<open>PUT /api/appointments/:id/status\<close>\<close>

text \<open>
  The \<^verbatim>\<open>UPDATE ... WHERE id = $4 RETURNING *\<close>, \<open>elapsed\<close> after the store's latest
  timestamp: the parameters are converted to the types of \<^verbatim>\<open>status VARCHAR(50)\<close>,
  \<^verbatim>\<open>rejection_reason TEXT\<close>, \<^verbatim>\<open>proposed_changes JSONB\<close> and \<^verbatim>\<open>id\<close>, then
  every row with that \<^verbatim>\<open>id\<close> gets the four columns of the \<^verbatim>\<open>SET\<close> clause, and
  the rows written are returned. When no row has the \<^verbatim>\<open>id\<close> nothing is written.
\<close>

definition update_appointment_status ::
  "('d, 't, 'j) ext \<Rightarrow> nat \<Rightarrow> ('d, 't, 'j) store \<Rightarrow> string option \<Rightarrow> string option \<Rightarrow>
   string option \<Rightarrow> string option \<Rightarrow>
   ('d, 't, 'j) store \<times> (pg_error + ('d, 't, 'j) appointment list)" where
  "update_appointment_status E elapsed s p1 p2 p3 p4 =
     (case and_then (on_value (varchar 50) p1) (\<lambda>st.
           and_then (on_value text_in p2) (\<lambda>rr.
           and_then (on_value (input (jsonb_in E)) p3) (\<lambda>pc.
           and_then (on_value (input (int4in E)) p4) (\<lambda>i.
           Inr (st, rr, pc, i))))) of
        Inl e \<Rightarrow> (s, Inl e)
      | Inr (st, rr, pc, i) \<Rightarrow>
          (let now = last_timestamp s + int elapsed;
               hit = (\<lambda>r. Some (a_id r) = i);
               set_columns = (\<lambda>r. r\<lparr>status := st, rejection_reason := rr,
                                     proposed_changes := pc, updated_at := now\<rparr>)
           in if filter hit (appointments s) = [] then (s, Inr [])
              else (s\<lparr>appointments := map (\<lambda>r. if hit r then set_columns r else r) (appointments s),
                      last_timestamp := now\<rparr>,
                    Inr (map set_columns (filter hit (appointments s))))))"

text \<open>
  The handler behind the gate. \<open>idp\<close> is \<^verbatim>\<open>req.params.id\<close>, the text of the path
  segment. \<^verbatim>\<open>JSON.stringify(undefined)\<close> is \<^verbatim>\<open>undefined\<close>; of any value it is a
  string.
\<close>

definition updateStatus ::
  "('d, 't, 'j) ext \<Rightarrow> nat \<Rightarrow> ('d, 't, 'j) store \<Rightarrow> string \<Rightarrow> body \<Rightarrow>
   ('d, 't, 'j) store \<times> ('d, 't, 'j) response" where
  "updateStatus E elapsed s idp b =
     (let status0 = b ''status''; rejectionReason = b ''rejectionReason'';
          proposedChanges = b ''proposedChanges''
      in case update_appointment_status E elapsed s
                (prepareValue E status0) (prepareValue E rejectionReason)
                (prepareValue E (map_option (\<lambda>v. JStr (JSON_stringify E v)) proposedChanges))
                (prepareValue E (Some (JStr idp))) of
           (s', Inl err) \<Rightarrow> (s', (500, ErrorJson ''Errore aggiornamento appuntamento''))
         | (s', Inr []) \<Rightarrow> (s', (404, ErrorJson ''Appuntamento non trovato''))
         | (s', Inr (row # rest)) \<Rightarrow> (s', (200, AppointmentJson row)))"

text \<open>The route: the gate, then the handler.\<close>

definition put_appointment_status ::
  "('d, 't, 'j) ext \<Rightarrow> int \<Rightarrow> nat \<Rightarrow> ('d, 't, 'j) store \<Rightarrow> string option \<Rightarrow> string \<Rightarrow>
   body \<Rightarrow> ('d, 't, 'j) store \<times> ('d, 't, 'j) response" where
  "put_appointment_status E clock elapsed s authHeader idp b =
     (case authenticateToken E clock authHeader of
        Inl answer \<Rightarrow> (s, answer)
      | Inr user \<Rightarrow> updateStatus E elapsed s idp b)"

subsection \<open>\<^verbatim>\<open>initDatabase\<close>\<close>

text \<open>
  When the table \<^verbatim>\<open>users\<close> is absent (\<open>None\<close>) the tables are created empty and
  seeded with the five services and the administrator; an initialised store is left as
  it is. The defaults fill \<^verbatim>\<open>id\<close>, \<^verbatim>\<open>active\<close> and \<^verbatim>\<open>created_at\<close>, at the
  store's time \<open>now\<close>.
\<close>

definition seed_services :: "timestamp \<Rightarrow> service list" where
  "seed_services now =
     [\<lparr>s_id = 1, s_name = ''Bagno e Spazzolatura'', duration = 60, price = 2500,
       description = Some ''Bagno completo con shampoo specifico e spazzolatura'',
       active = Some True, s_created_at = now\<rparr>,
      \<lparr>s_id = 2, s_name = ''Taglio Completo'', duration = 90, price = 4000,
       description = Some ''Taglio completo del pelo con styling'',
       active = Some True, s_created_at = now\<rparr>,
      \<lparr>s_id = 3, s_name = ''Taglio Unghie'', duration = 30, price = 1500,
       description = Some ''Taglio professionale delle unghie'',
       active = Some True, s_created_at = now\<rparr>,
      \<lparr>s_id = 4, s_name = ''Pulizia Orecchie'', duration = 20, price = 1000,
       description = Some ''Pulizia accurata delle orecchie'',
       active = Some True, s_created_at = now\<rparr>,
      \<lparr>s_id = 5, s_name = ''Pacchetto Completo'', duration = 120, price = 6000,
       description = Some ''Tutti i servizi inclusi'',
       active = Some True, s_created_at = now\<rparr>]"

definition initDatabase ::
  "('d, 't, 'j) ext \<Rightarrow> timestamp \<Rightarrow> ('d, 't, 'j) store option \<Rightarrow> ('d, 't, 'j) store" where
  "initDatabase E now db =
     (case db of
        Some s \<Rightarrow> s
      | None \<Rightarrow>
          \<lparr>users = [\<lparr>u_id = 1, u_email = ''admin@toelettatura.com'',
                     u_password = bcrypt_hash E ''admin123'', u_role = Some ''admin'',
                     fcm_token = None, u_created_at = now\<rparr>],
           services = seed_services now,
           appointments = [],
           appointments_id_seq = 0,
           last_timestamp = now\<rparr>)"

subsection \<open>Well-formed stores\<close>

text \<open>
  Every identifier of the table was handed out by its sequence. \<^verbatim>\<open>initDatabase\<close>
  establishes this and both writing handlers keep it.
\<close>

definition ids_from_sequence :: "('d, 't, 'j) store \<Rightarrow> bool" where
  "ids_from_sequence s = list_all (\<lambda>a. a_id a \<le> appointments_id_seq s) (appointments s)"

text \<open>
  No appointment was written later than the latest timestamp that the store has
  written. \<^verbatim>\<open>initDatabase\<close> establishes this too, and both writing handlers keep it.
\<close>

definition timestamps_written :: "('d, 't, 'j) store \<Rightarrow> bool" where
  "timestamps_written s = list_all (\<lambda>a. updated_at a \<le> last_timestamp s) (appointments s)"

subsection \<open>Stand-ins for the external collaborators\<close>

text \<open>
  To run the handlers on a concrete request the fields of \<open>ext\<close> need values. These
  are simple stand-ins with the shape of the real functions: decimal numerals, ISO
  dates and times, a hash that is recognisably not one, and a token that carries its
  payload in the clear behind the secret.
\<close>

definition digit_char :: "nat \<Rightarrow> char" where
  "digit_char d = ''0123456789'' ! d"

function decimal :: "nat \<Rightarrow> string" where
  "decimal n = (if n < 10 then [digit_char n] else decimal (n div 10) @ [digit_char (n mod 10)])"
  by pat_completeness auto
termination
  by (relation "measure (\<lambda>n. n)") auto

definition show_int :: "int \<Rightarrow> string" where
  "show_int i = (if i < 0 then CHR ''-'' # decimal (nat (- i)) else decimal (nat i))"

definition is_digit :: "char \<Rightarrow> bool" where
  "is_digit c = (c \<in> set ''0123456789'')"

fun read_decimal :: "nat \<Rightarrow> string \<Rightarrow> nat option" where
  "read_decimal acc [] = Some acc"
| "read_decimal acc (c # cs) =
     (if is_digit c then read_decimal (10 * acc + (of_char c - 48)) cs else None)"

definition read_int :: "string \<Rightarrow> int option" where
  "read_int s =
     (case s of
        [] \<Rightarrow> None
      | c # cs \<Rightarrow>
          if c = CHR ''-''
          then (if cs = [] then None else map_option (\<lambda>n. - int n) (read_decimal 0 cs))
          else map_option int (read_decimal 0 s))"

definition ref_int4in :: "string \<Rightarrow> int option" where
  "ref_int4in s =
     (case read_int s of
        None \<Rightarrow> None
      | Some i \<Rightarrow> if - 2147483648 \<le> i \<and> i \<le> 2147483647 then Some i else None)"

definition has_shape :: "string \<Rightarrow> string \<Rightarrow> bool" where
  "has_shape pat s =
     (length s = length pat \<and>
      list_all (\<lambda>(p, c). if p = CHR ''d'' then is_digit c else c = p) (zip pat s))"

definition ref_date_in :: "string \<Rightarrow> string option" where
  "ref_date_in s = (if has_shape ''dddd-dd-dd'' s then Some s else None)"

definition ref_time_in :: "string \<Rightarrow> string option" where
  "ref_time_in s = (if has_shape ''dd:dd'' s then Some (s @ '':00'') else None)"

definition join :: "string \<Rightarrow> string list \<Rightarrow> string" where
  "join sep xs = (case xs of [] \<Rightarrow> [] | y # ys \<Rightarrow> y @ concat (map (\<lambda>z. sep @ z) ys))"

fun ref_stringify :: "jsval \<Rightarrow> string" where
  "ref_stringify JNull = ''null''"
| "ref_stringify (JBool b) = (if b then ''true'' else ''false'')"
| "ref_stringify (JNum n) = show_int n"
| "ref_stringify (JStr s) = CHR 0x22 # s @ [CHR 0x22]"
| "ref_stringify (JArr xs) = ''['' @ join '','' (map ref_stringify xs) @ '']''"
| "ref_stringify (JObj kvs) =
     ''{'' @ join '','' (map (\<lambda>kv. CHR 0x22 # fst kv @ [CHR 0x22] @ '':'' @ ref_stringify (snd kv)) kvs)
     @ ''}''"

definition ref_jwt_encode :: "jwt_payload \<Rightarrow> string \<Rightarrow> string" where
  "ref_jwt_encode p k =
     join ''.''
       [k, show_int (jwt_userId p), show_int (jwt_iat p),
        (case jwt_exp p of None \<Rightarrow> ''never'' | Some e \<Rightarrow> show_int e), jwt_email p]"

definition ref_jwt_decode :: "string \<Rightarrow> string \<Rightarrow> jwt_payload option" where
  "ref_jwt_decode token k =
     (case js_split (CHR ''.'') token of
        k' # u # i # e # m # ms \<Rightarrow>
          (case (read_int u, read_int i) of
             (Some uid, Some iat) \<Rightarrow>
               if k' \<noteq> k \<or> (e \<noteq> ''never'' \<and> read_int e = None) then None
               else Some \<lparr>jwt_userId = uid, jwt_email = join ''.'' (m # ms), jwt_iat = iat,
                          jwt_exp = read_int e\<rparr>
           | _ \<Rightarrow> None)
      | _ \<Rightarrow> None)"

definition ref_ext :: "string option \<Rightarrow> (string, string, string) ext" where
  "ref_ext secret =
     \<lparr>env_JWT_SECRET = secret,
      bcrypt_hash = (\<lambda>pw. ''$not-a-hash$'' @ pw),
      bcrypt_compare = (\<lambda>pw h. Some (h = ''$not-a-hash$'' @ pw)),
      jwt_encode = ref_jwt_encode,
      jwt_decode = ref_jwt_decode,
      number_toString = show_int,
      arrayString = (\<lambda>xs. ''{'' @ join '','' (map ref_stringify xs) @ ''}''),
      JSON_stringify = ref_stringify,
      int4in = ref_int4in,
      date_in = ref_date_in,
      time_in = ref_time_in,
      jsonb_in = (\<lambda>s. if s = [] then None else Some s)\<rparr>"

subsection \<open>A concrete server\<close>

text \<open>
  The server with no \<^verbatim>\<open>JWT_SECRET\<close> in its environment, on a freshly seeded
  store, and the token of an administrator who logged in at second 1000.
\<close>

definition demo_ext :: "(string, string, string) ext" where
  "demo_ext = ref_ext None"

definition demo_store :: "(string, string, string) store" where
  "demo_store = initDatabase demo_ext 100 None"

definition demo_token :: string where
  "demo_token = jwt_sign demo_ext 1000 (1, ''admin@toelettatura.com'') (JWT_SECRET demo_ext) 86400"

text \<open>The catalog after the second service has been withdrawn.\<close>

definition demo_catalog :: "(string, string, string) store" where
  "demo_catalog =
     demo_store\<lparr>services :=
       map (\<lambda>r. if s_id r = 2 then r\<lparr>active := Some False\<rparr> else r) (services demo_store)\<rparr>"

text \<open>Requests: a login, the booking of the specification's scenario, and decisions.\<close>

definition login_body :: "string \<Rightarrow> string \<Rightarrow> body" where
  "login_body e p = [''email'' \<mapsto> JStr e, ''password'' \<mapsto> JStr p]"

definition booking_body :: body where
  "booking_body =
     [''clientName'' \<mapsto> JStr ''Mario Rossi'', ''petName'' \<mapsto> JStr ''Fido'',
      ''serviceId'' \<mapsto> JNum 1, ''appointmentDate'' \<mapsto> JStr ''2024-06-01'',
      ''appointmentTime'' \<mapsto> JStr ''10:00'']"

definition reject_body :: body where
  "reject_body =
     [''status'' \<mapsto> JStr ''rejected'', ''rejectionReason'' \<mapsto> JStr ''full'',
      ''proposedChanges'' \<mapsto> JArr [JNum 10, JNum 30]]"

definition confirm_body :: body where
  "confirm_body = [''status'' \<mapsto> JStr ''confirmed'']"

definition long_status :: string where
  "long_status = replicate 51 (CHR ''x'')"


text \<open>
  The store after the booking at time 200, the row of a second booking at time 250, the
  store after the rejection of the first at time 300, and the row that its confirmation
  at time 400 writes.
\<close>

definition booked_row :: "(string, string, string) appointment" where
  "booked_row =
     \<lparr>a_id = 1, client_name = ''Mario Rossi'', client_phone = None, client_email = None,
      pet_name = ''Fido'', pet_breed = None, service_id = Some 1,
      appointment_date = ''2024-06-01'', appointment_time = ''10:00:00'', a_notes = None,
      status = Some ''pending'', rejection_reason = None, proposed_changes = None,
      created_at = 200, updated_at = 200\<rparr>"

definition booked_store :: "(string, string, string) store" where
  "booked_store =
     demo_store\<lparr>appointments_id_seq := 1, appointments := [booked_row], last_timestamp := 200\<rparr>"

definition second_row :: "(string, string, string) appointment" where
  "second_row = booked_row\<lparr>a_id := 2, created_at := 250, updated_at := 250\<rparr>"

definition rejected_row :: "(string, string, string) appointment" where
  "rejected_row =
     booked_row\<lparr>status := Some ''rejected'', rejection_reason := Some ''full'',
                proposed_changes := Some ''[10,30]'', updated_at := 300\<rparr>"

definition rejected_store :: "(string, string, string) store" where
  "rejected_store = booked_store\<lparr>appointments := [rejected_row], last_timestamp := 300\<rparr>"

definition confirmed_row :: "(string, string, string) appointment" where
  "confirmed_row =
     rejected_row\<lparr>status := Some ''confirmed'', rejection_reason := None,
                  proposed_changes := None, updated_at := 400\<rparr>"

text \<open>A store whose administrator has the empty password.\<close>

definition blank_password_store :: "(string, string, string) store" where
  "blank_password_store =
     demo_store\<lparr>users := map (\<lambda>u. u\<lparr>u_password := bcrypt_hash demo_ext ''''\<rparr>) (users demo_store)\<rparr>"

text \<open>The gate answered by itself, with the status code \<open>c\<close>.\<close>

definition refused_with :: "nat \<Rightarrow> ('d, 't, 'j) response + jwt_payload \<Rightarrow> bool" where
  "refused_with c r = (case r of Inl (c', body') \<Rightarrow> c' = c | Inr user \<Rightarrow> False)"

section \<open>Properties\<close>

subsection \<open>Sequencing the store's checks\<close>

lemma and_then_Inr [simp]: "and_then (Inr a) f = f a"
  by (simp add: and_then_def)

lemma and_then_Inl [simp]: "and_then (Inl e) f = Inl e"
  by (simp add: and_then_def)

lemma not_null_Some [simp]: "not_null (Some x) = Inr x"
  by (simp add: not_null_def)

lemma text_in_clean: "CHR 0x00 \<notin> set s \<Longrightarrow> text_in s = Inr s"
  by (simp add: text_in_def)

lemma text_in_Inr: "text_in s = Inr v \<Longrightarrow> v = s \<and> CHR 0x00 \<notin> set s"
  by (simp add: text_in_def split: if_splits)

lemma on_value_text_in: "on_value text_in p = Inr v \<Longrightarrow> v = p"
  by (cases p) (auto simp: on_value_def text_in_def split: if_splits)


lemma input_value: "CHR 0x00 \<notin> set s \<Longrightarrow> f s = Some v \<Longrightarrow> input f s = Inr v"
  by (simp add: input_def text_in_def)

lemma input_refused: "f s = None \<Longrightarrow> \<exists>e. input f s = Inl e"
  by (simp add: input_def text_in_def)

lemma input_Inr: "input f s = Inr v \<Longrightarrow> f s = Some v \<and> CHR 0x00 \<notin> set s"
  by (auto simp: input_def text_in_def split: if_splits option.splits)

subsection \<open>Evaluating the concrete server\<close>

lemma demo_secret: "JWT_SECRET demo_ext = ''fallback-secret-for-development''"
  by (simp add: JWT_SECRET_def demo_ext_def ref_ext_def)

lemma demo_token_value:
  "demo_token = ''fallback-secret-for-development.1.1000.87400.admin@toelettatura.com''"
  by (simp add: demo_token_def jwt_sign_def demo_secret)
     (simp add: demo_ext_def ref_ext_def ref_jwt_encode_def join_def show_int_def digit_char_def)

lemma demo_token_decodes:
  "jwt_decode demo_ext demo_token (JWT_SECRET demo_ext) =
     Some \<lparr>jwt_userId = 1, jwt_email = ''admin@toelettatura.com'', jwt_iat = 1000,
           jwt_exp = Some 87400\<rparr>"
  by (simp add: demo_token_value demo_secret)
     (simp add: demo_ext_def ref_ext_def ref_jwt_decode_def join_def read_int_def is_digit_def)

lemma demo_token_issued:
  "demo_token = jwt_encode demo_ext
      \<lparr>jwt_userId = 1, jwt_email = ''admin@toelettatura.com'', jwt_iat = 1000,
        jwt_exp = Some (1000 + 86400)\<rparr> (JWT_SECRET demo_ext)"
  by (simp add: demo_token_def jwt_sign_def)

lemma demo_users:
  "users demo_store =
     [\<lparr>u_id = 1, u_email = ''admin@toelettatura.com'', u_password = ''$not-a-hash$admin123'',
       u_role = Some ''admin'', fcm_token = None, u_created_at = 100\<rparr>]"
  by (simp add: demo_store_def initDatabase_def demo_ext_def ref_ext_def)

lemma demo_compare: "bcrypt_compare demo_ext p h = Some (h = ''$not-a-hash$'' @ p)"
  by (simp add: demo_ext_def ref_ext_def)

lemma demo_find_admin:
  "find (\<lambda>u. u_email u = ''admin@toelettatura.com'') (users demo_store) =
     Some \<lparr>u_id = 1, u_email = ''admin@toelettatura.com'', u_password = ''$not-a-hash$admin123'',
       u_role = Some ''admin'', fcm_token = None, u_created_at = 100\<rparr>"
  by (simp add: demo_users)

lemma demo_conversions:
  "number_toString demo_ext = show_int" "int4in demo_ext = ref_int4in"
  "date_in demo_ext = ref_date_in" "time_in demo_ext = ref_time_in"
  "JSON_stringify demo_ext = ref_stringify"
  "jsonb_in demo_ext = (\<lambda>s. if s = [] then None else Some s)"
  by (simp_all add: demo_ext_def ref_ext_def)

lemma demo_store_tables:
  "map s_id (services demo_store) = [1, 2, 3, 4, 5]" "appointments demo_store = []"
  "appointments_id_seq demo_store = 0" "last_timestamp demo_store = 100"
  by (simp_all add: demo_store_def initDatabase_def seed_services_def)

lemma demo_store_ids: "ids_from_sequence demo_store"
  by (simp add: ids_from_sequence_def demo_store_tables)

lemma demo_catalog_names:
  "map s_name (select_active_services (\<lambda>n. n) demo_catalog)
     = [''Bagno e Spazzolatura'', ''Pacchetto Completo'', ''Pulizia Orecchie'', ''Taglio Unghie'']"
  by (simp add: select_active_services_def demo_catalog_def demo_store_def initDatabase_def
        seed_services_def)

lemma ref_int4in_1: "ref_int4in ''1'' = Some 1"
  by (simp add: ref_int4in_def read_int_def is_digit_def)

lemma ref_int4in_999: "ref_int4in ''999'' = Some 999"
  by (simp add: ref_int4in_def read_int_def is_digit_def)

lemma ref_int4in_abc: "ref_int4in ''abc'' = None"
  by (simp add: ref_int4in_def read_int_def is_digit_def)

lemma show_int_values: "show_int 1 = ''1''" "show_int 999 = ''999''"
  by (simp_all add: show_int_def digit_char_def)

lemma ref_day: "ref_date_in ''2024-06-01'' = Some ''2024-06-01''"
  "ref_time_in ''10:00'' = Some ''10:00:00''"
  by (simp_all add: ref_date_in_def ref_time_in_def has_shape_def is_digit_def)

lemma booked_appointments: "appointments booked_store = [booked_row]" "a_id booked_row = 1"
  "last_timestamp booked_store = 200" "appointments_id_seq booked_store = 1"
  "map s_id (services booked_store) = [1, 2, 3, 4, 5]"
  by (simp_all add: booked_store_def booked_row_def demo_store_tables)

lemma rejected_appointments: "appointments rejected_store = [rejected_row]" "a_id rejected_row = 1"
  "last_timestamp rejected_store = 300"
  by (simp_all add: rejected_store_def rejected_row_def booked_row_def)

lemma booked_store_formed: "ids_from_sequence booked_store" "timestamps_written booked_store"
  by (simp_all add: ids_from_sequence_def timestamps_written_def booked_store_def booked_row_def)

lemma rejected_store_formed: "timestamps_written rejected_store"
  by (simp add: timestamps_written_def rejected_store_def rejected_row_def)

lemma reject_body_changes:
  "on_value (input (jsonb_in demo_ext)) (map_option (JSON_stringify demo_ext) (reject_body ''proposedChanges''))
     = Inr (Some ''[10,30]'')"
  by (simp add: reject_body_def demo_conversions on_value_def input_def text_in_def join_def
        show_int_def digit_char_def)

lemma long_status_refused: "varchar 50 long_status = Inl string_data_right_truncation"
  by (simp add: varchar_def text_in_def long_status_def)

lemma demo_update_refused:
  "update_appointment_status demo_ext now s (Some long_status) p2 p3 p4
     = (s, Inl string_data_right_truncation)"
  by (simp add: update_appointment_status_def on_value_def long_status_refused)

subsection \<open>The gate\<close>

lemma js_split_no_separator: "c \<notin> set s \<Longrightarrow> js_split c s = [s]"
  by (induction s) auto

lemma js_split_at_separator: "c \<notin> set a \<Longrightarrow> js_split c (a @ c # r) = a # js_split c r"
  by (induction a) auto

lemma header_token_second_part:
  assumes "CHR '' '' \<notin> set scheme" and "CHR '' '' \<notin> set t"
  shows "header_token (Some (scheme @ '' '' @ t)) = Some t"
  using assms
  by (simp add: header_token_def js_index_def js_split_at_separator js_split_no_separator)


lemma authenticateToken_by_token:
  "authenticateToken E clock h =
     (case header_token h of
        None \<Rightarrow> Inl (401, ErrorJson ''Token di accesso richiesto'')
      | Some t \<Rightarrow>
          if t = [] then Inl (401, ErrorJson ''Token di accesso richiesto'')
          else (case jwt_verify E clock t (JWT_SECRET E) of
                  Inl err \<Rightarrow> Inl (403, ErrorJson ''Token non valido'')
                | Inr user \<Rightarrow> Inr user))"
  by (simp add: authenticateToken_def)

lemma authenticateToken_Bearer:
  fixes E :: "('d, 't, 'j) ext"
  assumes "token \<noteq> []" and "CHR '' '' \<notin> set token"
  shows "authenticateToken E t (Some (''Bearer '' @ token)) =
           (case jwt_verify E t token (JWT_SECRET E) of
              Inl err \<Rightarrow> Inl (403, ErrorJson ''Token non valido'')
            | Inr user \<Rightarrow> Inr user)"
proof -
  have "CHR '' '' \<notin> set ''Bearer''" by simp
  then have "header_token (Some (''Bearer'' @ '' '' @ token)) = Some token"
    using assms(2) by (rule header_token_second_part)
  then have "header_token (Some (''Bearer '' @ token)) = Some token" by simp
  with assms(1) show ?thesis unfolding authenticateToken_by_token by simp
qed

subsection \<open>Rows selected and written\<close>

lemma filter_Nil_find: "(\<forall>x \<in> set xs. \<not> P x) \<Longrightarrow> filter P xs = []"
  by (induction xs) auto

lemma filter_Cons_find: "find P xs = Some u \<Longrightarrow> \<exists>rest. filter P xs = u # rest"
  by (induction xs) (auto split: if_splits)

lemma find_holds: "find P xs = Some u \<Longrightarrow> P u"
  by (induction xs) (auto split: if_splits)

lemma find_filter_hd: "find P xs = Some a \<Longrightarrow> \<exists>rest. filter P xs = a # rest"
  by (induction xs) (auto split: if_splits)

lemma map_no_hit: "(\<forall>x \<in> set xs. \<not> P x) \<Longrightarrow> map (\<lambda>x. if P x then f x else x) xs = xs"
  by (induction xs) auto

lemma select_users_unknown:
  assumes "CHR 0x00 \<notin> set e" and "\<forall>u \<in> set (users s). u_email u \<noteq> e"
  shows "select_users_by_email s (Some e) = Inr []"
  using assms by (simp add: select_users_by_email_def on_value_def text_in_def filter_Nil_find)

lemma select_users_known:
  assumes "CHR 0x00 \<notin> set e" and "find (\<lambda>u. u_email u = e) (users s) = Some u"
  shows "\<exists>rest. select_users_by_email s (Some e) = Inr (u # rest)"
  using assms filter_Cons_find [OF assms(2)]
  by (simp add: select_users_by_email_def on_value_def text_in_def)

lemma select_active_services_props:
  "mset (select_active_services collate s) = mset (filter (\<lambda>r. active r = Some True) (services s))"
  "sorted (map (\<lambda>r. collate (s_name r)) (select_active_services collate s))"
  by (simp_all add: select_active_services_def)

lemma prepareValue_stringify:
  "prepareValue E (map_option (\<lambda>v. JStr (JSON_stringify E v)) pc) = map_option (JSON_stringify E) pc"
  by (cases pc) simp_all

text \<open>
  The \<^verbatim>\<open>UPDATE\<close> when the store takes its parameters, and when it refuses the
  identifier.
\<close>

lemma id_parameter:
  "CHR 0x00 \<notin> set idp \<Longrightarrow> int4in E idp = Some i
     \<Longrightarrow> on_value (input (int4in E)) (Some idp) = Inr (Some i)"
  by (simp add: on_value_def input_value)

lemma update_appointment_status_written:
  fixes E :: "('d, 't, 'j) ext"
  assumes "on_value (varchar 50) p1 = Inr st" and "on_value text_in p2 = Inr rr"
    and "on_value (input (jsonb_in E)) p3 = Inr pc"
    and "CHR 0x00 \<notin> set idp" and "int4in E idp = Some i"
    and "filter (\<lambda>r. a_id r = i) (appointments s) = a # rest"
  shows "update_appointment_status E elapsed s p1 p2 p3 (Some idp) =
           (s\<lparr>appointments :=
                map (\<lambda>r. if a_id r = i
                         then r\<lparr>status := st, rejection_reason := rr, proposed_changes := pc,
                                updated_at := last_timestamp s + int elapsed\<rparr>
                         else r) (appointments s),
              last_timestamp := last_timestamp s + int elapsed\<rparr>,
            Inr (map (\<lambda>r. r\<lparr>status := st, rejection_reason := rr, proposed_changes := pc,
                              updated_at := last_timestamp s + int elapsed\<rparr>)
                   (a # rest)))"
  using assms(1-3,6) id_parameter [OF assms(4,5)]
  by (simp add: update_appointment_status_def Let_def)

lemma update_appointment_status_no_row:
  fixes E :: "('d, 't, 'j) ext"
  assumes "on_value (varchar 50) p1 = Inr st" and "on_value text_in p2 = Inr rr"
    and "on_value (input (jsonb_in E)) p3 = Inr pc"
    and "CHR 0x00 \<notin> set idp" and "int4in E idp = Some i"
    and "filter (\<lambda>r. a_id r = i) (appointments s) = []"
  shows "update_appointment_status E elapsed s p1 p2 p3 (Some idp) = (s, Inr [])"
  using assms(1-3,6) id_parameter [OF assms(4,5)]
  by (simp add: update_appointment_status_def Let_def)

lemma update_appointment_status_refused_id:
  fixes E :: "('d, 't, 'j) ext"
  assumes "int4in E idp = None"
  shows "\<exists>e. update_appointment_status E elapsed s p1 p2 p3 (Some idp) = (s, Inl e)"
proof -
  from assms input_refused [of "int4in E" idp] obtain e where "input (int4in E) idp = Inl e"
    by blast
  then show ?thesis
    by (cases "on_value (varchar 50) p1"; cases "on_value text_in p2";
        cases "on_value (input (jsonb_in E)) p3")
       (simp_all add: update_appointment_status_def on_value_def)
qed

lemma update_appointment_status_store:
  fixes E :: "('d, 't, 'j) ext"
  assumes "\<forall>i. int4in E idp = Some i \<longrightarrow> i \<notin> a_id ` set (appointments s)"
  shows "fst (update_appointment_status E elapsed s p1 p2 p3 (Some idp)) = s"
proof (cases "input (int4in E) idp")
  case (Inl e)
  then show ?thesis
    by (cases "on_value (varchar 50) p1"; cases "on_value text_in p2";
        cases "on_value (input (jsonb_in E)) p3")
       (simp_all add: update_appointment_status_def on_value_def)
next
  case (Inr i)
  then have "int4in E idp = Some i" by (simp add: input_Inr)
  with assms have "\<forall>r \<in> set (appointments s). \<not> a_id r = i" by auto
  then have "filter (\<lambda>r. a_id r = i) (appointments s) = []"
    by (rule filter_Nil_find)
  then show ?thesis
    using Inr
    by (cases "on_value (varchar 50) p1"; cases "on_value text_in p2";
        cases "on_value (input (jsonb_in E)) p3")
       (simp_all add: update_appointment_status_def on_value_def Let_def)
qed

lemma updateStatus_by_statement:
  "updateStatus E elapsed s idp b =
     (case update_appointment_status E elapsed s (prepareValue E (b ''status''))
             (prepareValue E (b ''rejectionReason''))
             (map_option (JSON_stringify E) (b ''proposedChanges'')) (Some idp) of
        (s', Inl err) \<Rightarrow> (s', (500, ErrorJson ''Errore aggiornamento appuntamento''))
      | (s', Inr []) \<Rightarrow> (s', (404, ErrorJson ''Appuntamento non trovato''))
      | (s', Inr (row # rest)) \<Rightarrow> (s', (200, AppointmentJson row)))"
  by (simp add: updateStatus_def Let_def prepareValue_stringify)

lemma updateStatus_store:
  "fst (updateStatus E elapsed s idp b) =
     fst (update_appointment_status E elapsed s (prepareValue E (b ''status''))
            (prepareValue E (b ''rejectionReason''))
            (map_option (JSON_stringify E) (b ''proposedChanges'')) (Some idp))"
  by (simp add: updateStatus_by_statement split: prod.splits sum.splits list.splits)

text \<open>Behind the gate the route is its handler; a refused request leaves the store alone.\<close>

lemma put_appointment_status_gate:
  "authenticateToken E clock h = Inr user
     \<Longrightarrow> put_appointment_status E clock now s h idp b = updateStatus E now s idp b"
  "authenticateToken E clock h = Inl answer
     \<Longrightarrow> put_appointment_status E clock now s h idp b = (s, answer)"
  by (simp_all add: put_appointment_status_def)

text \<open>
  The scenario of the specification: the administrator, logged in at second 1000,
  confirms the booked appointment at second 2000 through the route; the answer is the
  row with the status \<^verbatim>\<open>confirmed\<close> and no rejection reason.
\<close>

lemma scenario_confirmed:
  "put_appointment_status demo_ext 2000 100 booked_store (Some (''Bearer '' @ demo_token)) ''1''
     confirm_body
   = (booked_store\<lparr>appointments := [booked_row\<lparr>status := Some ''confirmed'', updated_at := 300\<rparr>],
                   last_timestamp := 300\<rparr>,
      (200, AppointmentJson (booked_row\<lparr>status := Some ''confirmed'', updated_at := 300\<rparr>)))"
proof -
  have ne: "demo_token \<noteq> []" and sp: "CHR '' '' \<notin> set demo_token"
    by (simp_all add: demo_token_value)
  have "jwt_verify demo_ext 2000 demo_token (JWT_SECRET demo_ext)
          = Inr \<lparr>jwt_userId = 1, jwt_email = ''admin@toelettatura.com'', jwt_iat = 1000,
                 jwt_exp = Some 87400\<rparr>"
    by (simp add: jwt_verify_def demo_token_decodes)
  then have gate: "authenticateToken demo_ext 2000 (Some (''Bearer '' @ demo_token))
          = Inr \<lparr>jwt_userId = 1, jwt_email = ''admin@toelettatura.com'', jwt_iat = 1000,
                 jwt_exp = Some 87400\<rparr>"
    unfolding authenticateToken_Bearer [OF ne sp] by simp
  have h0: "CHR 0x00 \<notin> set ''1''" by simp
  have h1: "int4in demo_ext ''1'' = Some 1"
    by (simp add: demo_conversions ref_int4in_1)
  have h2: "on_value text_in (prepareValue demo_ext (confirm_body ''rejectionReason'')) = Inr None"
    by (simp add: confirm_body_def on_value_def)
  have h3: "on_value (varchar 50) (prepareValue demo_ext (confirm_body ''status''))
              = Inr (Some ''confirmed'')"
    by (simp add: confirm_body_def on_value_def varchar_def text_in_def)
  have h4: "on_value (input (jsonb_in demo_ext))
              (map_option (JSON_stringify demo_ext) (confirm_body ''proposedChanges'')) = Inr None"
    by (simp add: confirm_body_def on_value_def)
  have rows: "filter (\<lambda>r. a_id r = 1) (appointments booked_store) = booked_row # []"
    by (simp add: booked_appointments)
  show ?thesis
    unfolding put_appointment_status_gate(1) [OF gate] updateStatus_by_statement
      update_appointment_status_written [OF h3 h2 h4 h0 h1 rows]
    by (simp add: booked_appointments booked_row_def)
qed

subsection \<open>Well-formed stores stay well formed\<close>

lemma list_all_ids_fresh:
  "list_all (\<lambda>a. a_id a \<le> n) xs \<Longrightarrow> n + 1 \<notin> a_id ` set xs"
  by (induction xs) auto

lemma fresh_id: "ids_from_sequence s \<Longrightarrow> appointments_id_seq s + 1 \<notin> a_id ` set (appointments s)"
  unfolding ids_from_sequence_def by (rule list_all_ids_fresh)

lemma list_all_ids_mono:
  "list_all (\<lambda>a. a_id a \<le> n) xs \<Longrightarrow> n \<le> m \<Longrightarrow> list_all (\<lambda>a. a_id a \<le> m) xs"
  by (induction xs) auto

lemma list_all_ids_map:
  "list_all (\<lambda>a. a_id a \<le> n) xs \<Longrightarrow> (\<And>r. a_id (f r) = a_id r)
   \<Longrightarrow> list_all (\<lambda>a. a_id a \<le> n) (map (\<lambda>r. if P r then f r else r) xs)"
  by (induction xs) auto

lemma list_all_times_mono:
  "list_all (\<lambda>a. updated_at a \<le> n) xs \<Longrightarrow> n \<le> m \<Longrightarrow> list_all (\<lambda>a. updated_at a \<le> m) xs"
  by (induction xs) auto

lemma list_all_times_map:
  "list_all (\<lambda>a. updated_at a \<le> m) xs \<Longrightarrow> (\<And>r. updated_at (f r) \<le> m)
   \<Longrightarrow> list_all (\<lambda>a. updated_at a \<le> m) (map (\<lambda>r. if P r then f r else r) xs)"
  by (induction xs) auto



lemma initDatabase_formed:
  "ids_from_sequence (initDatabase E now None)" "timestamps_written (initDatabase E now None)"
  by (simp_all add: ids_from_sequence_def timestamps_written_def initDatabase_def)

text \<open>What the two statements can do to the store.\<close>

lemma insert_appointment_store:
  "fst (insert_appointment E elapsed s p1 p2 p3 p4 p5 p6 p7 p8 p9) = s
   \<or> fst (insert_appointment E elapsed s p1 p2 p3 p4 p5 p6 p7 p8 p9)
       = s\<lparr>appointments_id_seq := appointments_id_seq s + 1\<rparr>
   \<or> (\<exists>row. a_id row = appointments_id_seq s + 1
          \<and> updated_at row = last_timestamp s + int elapsed
          \<and> fst (insert_appointment E elapsed s p1 p2 p3 p4 p5 p6 p7 p8 p9)
              = s\<lparr>appointments_id_seq := appointments_id_seq s + 1,
                  appointments := appointments s @ [row],
                  last_timestamp := last_timestamp s + int elapsed\<rparr>)"
proof (cases "appointment_values E p1 p2 p3 p4 p5 p6 p7 p8 p9")
  case (Inl e)
  then show ?thesis by (simp add: insert_appointment_def)
next
  case (Inr v)
  obtain cn cp ce pn pb sid d t n where v: "v = (cn, cp, ce, pn, pb, sid, d, t, n)"
    by (cases v) auto
  let ?row = "\<lparr>a_id = appointments_id_seq s + 1, client_name = cn, client_phone = cp,
               client_email = ce, pet_name = pn, pet_breed = pb, service_id = sid,
               appointment_date = d, appointment_time = t, a_notes = n,
               status = Some ''pending'', rejection_reason = None,
               proposed_changes = None, created_at = last_timestamp s + int elapsed,
               updated_at = last_timestamp s + int elapsed\<rparr>"
  have "fst (insert_appointment E elapsed s p1 p2 p3 p4 p5 p6 p7 p8 p9) = s
   \<or> fst (insert_appointment E elapsed s p1 p2 p3 p4 p5 p6 p7 p8 p9)
       = s\<lparr>appointments_id_seq := appointments_id_seq s + 1\<rparr>
   \<or> fst (insert_appointment E elapsed s p1 p2 p3 p4 p5 p6 p7 p8 p9)
              = s\<lparr>appointments_id_seq := appointments_id_seq s + 1,
                  appointments := appointments s @ [?row],
                  last_timestamp := last_timestamp s + int elapsed\<rparr>"
    using Inr v by (simp add: insert_appointment_def Let_def)
  moreover have "a_id ?row = appointments_id_seq s + 1"
    "updated_at ?row = last_timestamp s + int elapsed"
    by simp_all
  ultimately show ?thesis by (elim disjE) (intro disjI1, assumption, intro disjI2 disjI1,
      assumption, intro disjI2 exI [of _ ?row] conjI, assumption+)
qed

lemma createAppointment_store:
  "fst (createAppointment E elapsed s b) = s
   \<or> fst (createAppointment E elapsed s b)
       = fst (insert_appointment E elapsed s
                (prepareValue E (b ''clientName'')) (prepareValue E (b ''clientPhone''))
                (prepareValue E (b ''clientEmail'')) (prepareValue E (b ''petName''))
                (prepareValue E (b ''petBreed'')) (prepareValue E (b ''serviceId''))
                (prepareValue E (b ''appointmentDate'')) (prepareValue E (b ''appointmentTime''))
                (prepareValue E (b ''notes'')))"
proof (cases "truthy (b ''clientName'') \<and> truthy (b ''petName'') \<and> truthy (b ''serviceId'')
              \<and> truthy (b ''appointmentDate'') \<and> truthy (b ''appointmentTime'')")
  case False
  then have "createAppointment E elapsed s b = (s, (400, ErrorJson ''Campi obbligatori mancanti''))"
    by (auto simp: createAppointment_def Let_def)
  then show ?thesis by simp
next
  case True
  let ?ins = "insert_appointment E elapsed s
                (prepareValue E (b ''clientName'')) (prepareValue E (b ''clientPhone''))
                (prepareValue E (b ''clientEmail'')) (prepareValue E (b ''petName''))
                (prepareValue E (b ''petBreed'')) (prepareValue E (b ''serviceId''))
                (prepareValue E (b ''appointmentDate'')) (prepareValue E (b ''appointmentTime''))
                (prepareValue E (b ''notes''))"
  from True have "fst (createAppointment E elapsed s b) = fst ?ins"
    by (cases ?ins) (simp add: createAppointment_def Let_def split: sum.splits)
  then show ?thesis by simp
qed

lemma createAppointment_formed:
  assumes "ids_from_sequence s" and "timestamps_written s"
  shows "ids_from_sequence (fst (createAppointment E elapsed s b))
       \<and> timestamps_written (fst (createAppointment E elapsed s b))"
proof -
  have ids: "list_all (\<lambda>a. a_id a \<le> appointments_id_seq s + 1) (appointments s)"
    using assms(1) unfolding ids_from_sequence_def by (rule list_all_ids_mono) simp
  have times: "list_all (\<lambda>a. updated_at a \<le> last_timestamp s + int elapsed) (appointments s)"
    using assms(2) unfolding timestamps_written_def by (rule list_all_times_mono) simp
  have "ids_from_sequence s' \<and> timestamps_written s'"
    if "s' = s \<or> s' = s\<lparr>appointments_id_seq := appointments_id_seq s + 1\<rparr>
        \<or> (\<exists>row. a_id row = appointments_id_seq s + 1
              \<and> updated_at row = last_timestamp s + int elapsed
              \<and> s' = s\<lparr>appointments_id_seq := appointments_id_seq s + 1,
                       appointments := appointments s @ [row],
                       last_timestamp := last_timestamp s + int elapsed\<rparr>)" for s'
    using that assms ids times
    by (auto simp: ids_from_sequence_def timestamps_written_def)
  with createAppointment_store [of E elapsed s b] insert_appointment_store assms
  show ?thesis by metis
qed

lemma update_appointment_status_shape:
  "fst (update_appointment_status E elapsed s p1 p2 p3 p4) = s
   \<or> (\<exists>P f. (\<forall>r. a_id (f r) = a_id r \<and> updated_at (f r) = last_timestamp s + int elapsed)
          \<and> fst (update_appointment_status E elapsed s p1 p2 p3 p4)
              = s\<lparr>appointments := map (\<lambda>r. if P r then f r else r) (appointments s),
                  last_timestamp := last_timestamp s + int elapsed\<rparr>)"
proof (cases "and_then (on_value (varchar 50) p1) (\<lambda>st.
           and_then (on_value text_in p2) (\<lambda>rr.
           and_then (on_value (input (jsonb_in E)) p3) (\<lambda>pc.
           and_then (on_value (input (int4in E)) p4) (\<lambda>i.
           Inr (st, rr, pc, i)))))")
  case (Inl e)
  then show ?thesis by (simp add: update_appointment_status_def)
next
  case (Inr v)
  obtain st rr pc i where v: "v = (st, rr, pc, i)" by (cases v) auto
  show ?thesis
  proof (cases "filter (\<lambda>r. Some (a_id r) = i) (appointments s) = []")
    case True
    with Inr v show ?thesis by (simp add: update_appointment_status_def Let_def)
  next
    case False
    let ?f = "\<lambda>r::('a, 'b, 'c) appointment.
                r\<lparr>status := st, rejection_reason := rr, proposed_changes := pc,
                  updated_at := last_timestamp s + int elapsed\<rparr>"
    have "\<forall>r. a_id (?f r) = a_id r \<and> updated_at (?f r) = last_timestamp s + int elapsed"
      by simp
    moreover have "fst (update_appointment_status E elapsed s p1 p2 p3 p4)
              = s\<lparr>appointments := map (\<lambda>r. if Some (a_id r) = i then ?f r else r) (appointments s),
                  last_timestamp := last_timestamp s + int elapsed\<rparr>"
      using Inr v False by (simp add: update_appointment_status_def Let_def)
    ultimately show ?thesis
      by (intro disjI2 exI [of _ "\<lambda>r. Some (a_id r) = i"] exI [of _ ?f] conjI)
  qed
qed

lemma updateStatus_formed:
  assumes "ids_from_sequence s" and "timestamps_written s"
  shows "ids_from_sequence (fst (updateStatus E elapsed s idp b))
       \<and> timestamps_written (fst (updateStatus E elapsed s idp b))"
proof -
  let ?s' = "fst (update_appointment_status E elapsed s (prepareValue E (b ''status''))
            (prepareValue E (b ''rejectionReason''))
            (map_option (JSON_stringify E) (b ''proposedChanges'')) (Some idp))"
  have times: "list_all (\<lambda>a. updated_at a \<le> last_timestamp s + int elapsed) (appointments s)"
    using assms(2) unfolding timestamps_written_def by (rule list_all_times_mono) simp
  from update_appointment_status_shape [of E elapsed s]
  consider (same) "?s' = s"
    | (written) P f where "\<forall>r. a_id (f r) = a_id r \<and> updated_at (f r) = last_timestamp s + int elapsed"
        "?s' = s\<lparr>appointments := map (\<lambda>r. if P r then f r else r) (appointments s),
                  last_timestamp := last_timestamp s + int elapsed\<rparr>"
    by blast
  then have "ids_from_sequence ?s' \<and> timestamps_written ?s'"
  proof cases
    case same
    with assms show ?thesis by simp
  next
    case written
    have "list_all (\<lambda>a. a_id a \<le> appointments_id_seq s)
            (map (\<lambda>r. if P r then f r else r) (appointments s))"
      using assms(1) written(1) unfolding ids_from_sequence_def
      by (intro list_all_ids_map) simp_all
    moreover have "list_all (\<lambda>a. updated_at a \<le> last_timestamp s + int elapsed)
            (map (\<lambda>r. if P r then f r else r) (appointments s))"
      using times written(1) by (intro list_all_times_map) simp_all
    ultimately show ?thesis
      unfolding written(2) by (simp add: ids_from_sequence_def timestamps_written_def)
  qed
  then show ?thesis by (simp only: updateStatus_store)
qed

subsection \<open>The concrete stores are stores of the server\<close>

lemma first_booking:
  "createAppointment demo_ext 100 demo_store booking_body =
     (booked_store, (200, CreatedJson ''Appuntamento creato con successo'' booked_row))"
  by (simp add: createAppointment_def insert_appointment_def appointment_values_def Let_def
        booking_body_def on_value_def input_def varchar_def text_in_def demo_conversions
        show_int_values ref_int4in_1 ref_day demo_store_tables booked_store_def booked_row_def)
     (use demo_store_tables(1) in \<open>simp flip: set_map\<close>)

section \<open>The claims\<close>

subsection \<open>C1: what a status update writes\<close>




subsection \<open>C2: a login issues a token that the gate accepts for 24 hours\<close>

text \<open>
  Claim C2, as amended. Let \<open>u\<close> be the stored user with the email \<open>e\<close> (a text
  that the store holds has no character NUL), let the email and the password \<open>p\<close> be
  non-empty strings, and let \<open>p\<close> match the hash stored for \<open>u\<close>. Of the token library it is assumed that the token it issues for the
  payload decodes to that payload under the same secret, and is a non-empty text
  without a space. Then the login answers 200 with the token and the summary of \<open>u\<close>,
  and at every second before \<open>clock + 86400\<close> the gate accepts the token and passes on
  a payload with the identifier and the email of \<open>u\<close>; from that second on the gate
  refuses it.
\<close>

theorem login_token_accepted:
  fixes E :: "('d, 't, 'j) ext"
  assumes email: "b ''email'' = Some (JStr e)" "e \<noteq> []"
    and password: "b ''password'' = Some (JStr p)" "p \<noteq> []"
    and stored: "find (\<lambda>u. u_email u = e) (users s) = Some u" "CHR 0x00 \<notin> set (u_email u)"
    and matches: "bcrypt_compare E p (u_password u) = Some True"
    and issued: "issued = \<lparr>jwt_userId = u_id u, jwt_email = e, jwt_iat = clock,
                            jwt_exp = Some (clock + 86400)\<rparr>"
    and token: "token = jwt_encode E issued (JWT_SECRET E)"
    and decodes: "jwt_decode E token (JWT_SECRET E) = Some issued"
    and compact: "token \<noteq> []" "CHR '' '' \<notin> set token"
  shows "login E clock s b =
           (200, LoginJson ''Login effettuato con successo'' token
                   \<lparr>us_id = u_id u, us_email = e, us_role = u_role u\<rparr>)
       \<and> (\<forall>t. authenticateToken E t (Some (''Bearer '' @ token)) =
                (if t < clock + 86400 then Inr issued
                 else Inl (403, ErrorJson ''Token non valido'')))"
proof -
  have ue: "u_email u = e" using stored(1) by (rule find_holds)
  with stored(2) have clean: "CHR 0x00 \<notin> set e" by simp
  from select_users_known [OF clean stored(1)]
  obtain rest where rows: "select_users_by_email s (Some e) = Inr (u # rest)"
    by blast
  have "jwt_sign E clock (u_id u, u_email u) (JWT_SECRET E) 86400 = token"
    by (simp add: jwt_sign_def token issued ue)
  with rows email password matches ue
  have a: "login E clock s b =
           (200, LoginJson ''Login effettuato con successo'' token
                   \<lparr>us_id = u_id u, us_email = e, us_role = u_role u\<rparr>)"
    by (simp add: login_def bcrypt_compare_js_def)
  have v: "jwt_verify E t token (JWT_SECRET E) =
             (if t < clock + 86400 then Inr issued else Inl TokenExpiredError)" for t
    by (auto simp: jwt_verify_def decodes issued)
  have "authenticateToken E t (Some (''Bearer '' @ token)) =
          (if t < clock + 86400 then Inr issued
           else Inl (403, ErrorJson ''Token non valido''))" for t
    unfolding authenticateToken_Bearer [OF compact] v by simp
  with a show ?thesis by blast
qed

theorem login_token_accepted_witness:
  "login demo_ext 1000 demo_store (login_body ''admin@toelettatura.com'' ''admin123'') =
     (200, LoginJson ''Login effettuato con successo'' demo_token
             \<lparr>us_id = 1, us_email = ''admin@toelettatura.com'', us_role = Some ''admin''\<rparr>)
   \<and> authenticateToken demo_ext 87399 (Some (''Bearer '' @ demo_token)) =
       Inr \<lparr>jwt_userId = 1, jwt_email = ''admin@toelettatura.com'', jwt_iat = 1000,
             jwt_exp = Some 87400\<rparr>
   \<and> authenticateToken demo_ext 87400 (Some (''Bearer '' @ demo_token)) =
       Inl (403, ErrorJson ''Token non valido'')"
proof -
  have h1: "login_body ''admin@toelettatura.com'' ''admin123'' ''email''
              = Some (JStr ''admin@toelettatura.com'')"
    and h2: "''admin@toelettatura.com'' \<noteq> []"
    and h3: "login_body ''admin@toelettatura.com'' ''admin123'' ''password''
              = Some (JStr ''admin123'')"
    and h4: "''admin123'' \<noteq> []"
    by (simp_all add: login_body_def)
  have h5: "bcrypt_compare demo_ext ''admin123''
              (u_password \<lparr>u_id = 1, u_email = ''admin@toelettatura.com'',
                 u_password = ''$not-a-hash$admin123'', u_role = Some ''admin'',
                 fcm_token = None, u_created_at = 100\<rparr>) = Some True"
    by (simp add: demo_compare)
  have held: "CHR 0x00 \<notin> set (u_email \<lparr>u_id = 1, u_email = ''admin@toelettatura.com'',
                 u_password = ''$not-a-hash$admin123'', u_role = Some ''admin'',
                 fcm_token = None, u_created_at = 100\<rparr>)"
    by simp
  have h6: "\<lparr>jwt_userId = 1, jwt_email = ''admin@toelettatura.com'', jwt_iat = 1000,
             jwt_exp = Some 87400\<rparr>
           = \<lparr>jwt_userId = u_id \<lparr>u_id = 1, u_email = ''admin@toelettatura.com'',
                 u_password = ''$not-a-hash$admin123'', u_role = Some ''admin'',
                 fcm_token = None, u_created_at = 100\<rparr>,
              jwt_email = ''admin@toelettatura.com'', jwt_iat = 1000,
              jwt_exp = Some (1000 + 86400)\<rparr>"
    by simp
  have h7: "demo_token = jwt_encode demo_ext
      \<lparr>jwt_userId = 1, jwt_email = ''admin@toelettatura.com'', jwt_iat = 1000,
        jwt_exp = Some 87400\<rparr> (JWT_SECRET demo_ext)"
    using demo_token_issued by simp
  have h8: "demo_token \<noteq> []" and h9: "CHR '' '' \<notin> set demo_token"
    by (simp_all add: demo_token_value)
  note inst = login_token_accepted
                [OF h1 h2 h3 h4 demo_find_admin held h5 h6 h7 demo_token_decodes h8 h9]
  from inst have a: "login demo_ext 1000 demo_store (login_body ''admin@toelettatura.com'' ''admin123'') =
     (200, LoginJson ''Login effettuato con successo'' demo_token
             \<lparr>us_id = 1, us_email = ''admin@toelettatura.com'', us_role = Some ''admin''\<rparr>)"
    by simp
  from inst have "authenticateToken demo_ext t (Some (''Bearer '' @ demo_token)) =
                (if t < 1000 + 86400
                 then Inr \<lparr>jwt_userId = 1, jwt_email = ''admin@toelettatura.com'', jwt_iat = 1000,
                            jwt_exp = Some 87400\<rparr>
                 else Inl (403, ErrorJson ''Token non valido''))" for t
    by blast
  from this [of 87399] this [of 87400] a show ?thesis by simp
qed

text \<open>
  Claim C2 as stated fails for the empty password: when the stored hash is the hash of
  the empty password, the empty password matches it, and the handler answers 400
  before it looks the user up, because \<^verbatim>\<open>!password\<close> holds of the empty string.
\<close>

theorem login_blank_password_counterexample:
  "bcrypt_compare demo_ext '''' (u_password (hd (users blank_password_store))) = Some True
   \<and> u_email (hd (users blank_password_store)) = ''admin@toelettatura.com''
   \<and> login demo_ext 1000 blank_password_store (login_body ''admin@toelettatura.com'' '''')
       = (400, ErrorJson ''Email e password richiesti'')"
  by (simp add: blank_password_store_def demo_users demo_compare login_def login_body_def)
     (simp add: demo_ext_def ref_ext_def)

subsection \<open>C3: what the gate refuses\<close>

text \<open>
  Claim C3, as amended. The gate refuses a request that carries no token (no
  \<^verbatim>\<open>Authorization\<close> header, or one whose second part is absent or empty) with
  401, and a request whose token does not verify with Forbidden, 403: a token that is
  malformed or whose signature is invalid does not decode under the secret, and an
  expired one decodes to a payload whose \<^verbatim>\<open>exp\<close> the clock has reached.
\<close>

theorem authenticateToken_refusals:
  fixes E :: "('d, 't, 'j) ext"
  shows "(header_token h = None \<or> header_token h = Some [] \<longrightarrow>
            authenticateToken E clock h = Inl (401, ErrorJson ''Token di accesso richiesto''))
       \<and> (header_token h = Some t \<and> t \<noteq> [] \<and>
            (jwt_decode E t (JWT_SECRET E) = None \<or>
             (\<exists>p e. jwt_decode E t (JWT_SECRET E) = Some p \<and> jwt_exp p = Some e \<and> e \<le> clock)) \<longrightarrow>
            authenticateToken E clock h = Inl (403, ErrorJson ''Token non valido''))"
  by (auto simp: authenticateToken_def jwt_verify_def)

theorem authenticateToken_refusals_witness:
  "header_token None = None
   \<and> authenticateToken demo_ext 2000 None = Inl (401, ErrorJson ''Token di accesso richiesto'')
   \<and> header_token (Some ''Bearer junk'') = Some ''junk''
   \<and> jwt_decode demo_ext ''junk'' (JWT_SECRET demo_ext) = None
   \<and> authenticateToken demo_ext 2000 (Some ''Bearer junk'') = Inl (403, ErrorJson ''Token non valido'')"
proof -
  have h1: "header_token None = None"
    by (simp add: header_token_def)
  have h2: "header_token (Some ''Bearer junk'') = Some ''junk''"
    by (simp add: header_token_def js_index_def)
  have h3: "jwt_decode demo_ext ''junk'' (JWT_SECRET demo_ext) = None"
    by (simp add: demo_ext_def ref_ext_def ref_jwt_decode_def)
  from authenticateToken_refusals [where h = None and E = demo_ext and clock = 2000] h1
  have a: "authenticateToken demo_ext 2000 None = Inl (401, ErrorJson ''Token di accesso richiesto'')"
    by blast
  from authenticateToken_refusals
         [where h = "Some ''Bearer junk''" and t = "''junk''" and E = demo_ext and clock = 2000] h2 h3
  have b: "authenticateToken demo_ext 2000 (Some ''Bearer junk'') = Inl (403, ErrorJson ''Token non valido'')"
    by simp
  from h1 h2 h3 a b show ?thesis by blast
qed

text \<open>
  Claim C3 as stated fails: it has Forbidden cover the missing token, and the gate
  answers a request without \<^verbatim>\<open>Authorization\<close> header with 401, not 403.
\<close>

theorem authenticateToken_missing_counterexample:
  "refused_with 401 (authenticateToken demo_ext 2000 None)
   \<and> \<not> refused_with 403 (authenticateToken demo_ext 2000 None)"
  by (simp add: authenticateToken_def header_token_def refused_with_def)

subsection \<open>C4: a new appointment is pending\<close>

text \<open>
  Claim C4, as amended. Let the five required fields be present (truthy), let the store
  take every parameter as a value of its column's type (no text holds the character
  NUL, the texts are within the widths of their \<^verbatim>\<open>VARCHAR\<close> columns, the service
  reference is an integer, the date a date, the time a time), let the service reference
  be the identifier of a stored service, and let the store be one whose identifiers came
  from the sequence, which has values left. Then the handler answers 200 with the row
  it appended to the table; the row has the status \<^verbatim>\<open>pending\<close>, no rejection
  reason, no proposed changes, and the next value of the sequence as its identifier,
  which no earlier row has.
\<close>

theorem createAppointment_pending:
  fixes E :: "('d, 't, 'j) ext"
  assumes required: "truthy (b ''clientName'')" "truthy (b ''petName'')" "truthy (b ''serviceId'')"
      "truthy (b ''appointmentDate'')" "truthy (b ''appointmentTime'')"
    and texts: "on_value (varchar 255) (prepareValue E (b ''clientName'')) = Inr (Some cn)"
      "on_value (varchar 20) (prepareValue E (b ''clientPhone'')) = Inr cp"
      "on_value (varchar 255) (prepareValue E (b ''clientEmail'')) = Inr ce"
      "on_value (varchar 255) (prepareValue E (b ''petName'')) = Inr (Some pn)"
      "on_value (varchar 255) (prepareValue E (b ''petBreed'')) = Inr pb"
      "on_value text_in (prepareValue E (b ''notes'')) = Inr n"
    and service: "on_value (input (int4in E)) (prepareValue E (b ''serviceId'')) = Inr (Some k)"
      "k \<in> s_id ` set (services s)"
    and day: "on_value (input (date_in E)) (prepareValue E (b ''appointmentDate'')) = Inr (Some d)"
      "on_value (input (time_in E)) (prepareValue E (b ''appointmentTime'')) = Inr (Some t)"
    and sequence: "appointments_id_seq s < 2147483647" "ids_from_sequence s"
  shows "\<exists>row. createAppointment E elapsed s b =
             (s\<lparr>appointments_id_seq := appointments_id_seq s + 1,
                appointments := appointments s @ [row],
                last_timestamp := last_timestamp s + int elapsed\<rparr>,
              (200, CreatedJson ''Appuntamento creato con successo'' row))
           \<and> status row = Some ''pending'' \<and> rejection_reason row = None
           \<and> proposed_changes row = None
           \<and> a_id row \<notin> a_id ` set (appointments s)
           \<and> a_id row = appointments_id_seq s + 1
           \<and> client_name row = cn \<and> pet_name row = pn \<and> service_id row = Some k
           \<and> appointment_date row = d \<and> appointment_time row = t
           \<and> created_at row = last_timestamp s + int elapsed
           \<and> updated_at row = last_timestamp s + int elapsed"
proof -
  let ?now = "last_timestamp s + int elapsed"
  let ?row = "\<lparr>a_id = appointments_id_seq s + 1, client_name = cn, client_phone = cp,
               client_email = ce, pet_name = pn, pet_breed = pb, service_id = Some k,
               appointment_date = d, appointment_time = t, a_notes = n,
               status = Some ''pending'', rejection_reason = None,
               proposed_changes = None, created_at = ?now, updated_at = ?now\<rparr>"
  have vals: "appointment_values E
                (prepareValue E (b ''clientName'')) (prepareValue E (b ''clientPhone''))
                (prepareValue E (b ''clientEmail'')) (prepareValue E (b ''petName''))
                (prepareValue E (b ''petBreed'')) (prepareValue E (b ''serviceId''))
                (prepareValue E (b ''appointmentDate'')) (prepareValue E (b ''appointmentTime''))
                (prepareValue E (b ''notes''))
              = Inr (cn, cp, ce, pn, pb, Some k, d, t, n)"
    unfolding appointment_values_def by (simp add: texts service(1) day)
  have fresh: "appointments_id_seq s + 1 \<notin> a_id ` set (appointments s)"
    using sequence(2) by (rule fresh_id)
  have ins: "insert_appointment E elapsed s
                (prepareValue E (b ''clientName'')) (prepareValue E (b ''clientPhone''))
                (prepareValue E (b ''clientEmail'')) (prepareValue E (b ''petName''))
                (prepareValue E (b ''petBreed'')) (prepareValue E (b ''serviceId''))
                (prepareValue E (b ''appointmentDate'')) (prepareValue E (b ''appointmentTime''))
                (prepareValue E (b ''notes''))
              = (s\<lparr>appointments_id_seq := appointments_id_seq s + 1,
                   appointments := appointments s @ [?row],
                   last_timestamp := ?now\<rparr>, Inr ?row)"
    unfolding insert_appointment_def vals
    using fresh sequence(1) service(2) by (simp add: Let_def)
  have "createAppointment E elapsed s b =
             (s\<lparr>appointments_id_seq := appointments_id_seq s + 1,
                appointments := appointments s @ [?row],
                last_timestamp := ?now\<rparr>,
              (200, CreatedJson ''Appuntamento creato con successo'' ?row))"
    unfolding createAppointment_def Let_def ins using required by simp
  then show ?thesis
    using fresh by (intro exI [of _ ?row]) simp
qed

theorem createAppointment_pending_witness:
  "map a_id (appointments booked_store) = [1]
   \<and> createAppointment demo_ext 50 booked_store booking_body =
       (booked_store\<lparr>appointments_id_seq := 2, appointments := [booked_row, second_row],
                     last_timestamp := 250\<rparr>,
        (200, CreatedJson ''Appuntamento creato con successo'' second_row))
   \<and> a_id second_row = 2
   \<and> a_id second_row \<notin> a_id ` set (appointments booked_store)
   \<and> status second_row = Some ''pending'' \<and> rejection_reason second_row = None
   \<and> proposed_changes second_row = None"
proof -
  have h: "truthy (booking_body ''clientName'')" "truthy (booking_body ''petName'')"
    "truthy (booking_body ''serviceId'')" "truthy (booking_body ''appointmentDate'')"
    "truthy (booking_body ''appointmentTime'')"
    by (simp_all add: booking_body_def)
  have c: "on_value (varchar 255) (prepareValue demo_ext (booking_body ''clientName''))
             = Inr (Some ''Mario Rossi'')"
    "on_value (varchar 20) (prepareValue demo_ext (booking_body ''clientPhone'')) = Inr None"
    "on_value (varchar 255) (prepareValue demo_ext (booking_body ''clientEmail'')) = Inr None"
    "on_value (varchar 255) (prepareValue demo_ext (booking_body ''petName'')) = Inr (Some ''Fido'')"
    "on_value (varchar 255) (prepareValue demo_ext (booking_body ''petBreed'')) = Inr None"
    "on_value text_in (prepareValue demo_ext (booking_body ''notes'')) = Inr None"
    by (simp_all add: booking_body_def on_value_def varchar_def text_in_def)
  have k: "on_value (input (int4in demo_ext)) (prepareValue demo_ext (booking_body ''serviceId''))
             = Inr (Some 1)"
    "1 \<in> s_id ` set (services booked_store)"
    using booked_appointments(5)
    by (simp_all add: booking_body_def on_value_def input_def text_in_def demo_conversions
          show_int_values ref_int4in_1 flip: set_map)
  have d: "on_value (input (date_in demo_ext)) (prepareValue demo_ext (booking_body ''appointmentDate''))
             = Inr (Some ''2024-06-01'')"
    "on_value (input (time_in demo_ext)) (prepareValue demo_ext (booking_body ''appointmentTime''))
             = Inr (Some ''10:00:00'')"
    by (simp_all add: booking_body_def on_value_def input_def text_in_def demo_conversions ref_day)
  have q: "appointments_id_seq booked_store < 2147483647"
    by (simp add: booked_appointments)
  from createAppointment_pending [OF h c k d q booked_store_formed(1), where elapsed = 50]
  obtain row where r: "createAppointment demo_ext 50 booked_store booking_body =
             (booked_store\<lparr>appointments_id_seq := appointments_id_seq booked_store + 1,
                appointments := appointments booked_store @ [row],
                last_timestamp := last_timestamp booked_store + int 50\<rparr>,
              (200, CreatedJson ''Appuntamento creato con successo'' row))"
      and p: "status row = Some ''pending''" "rejection_reason row = None"
        "proposed_changes row = None" "a_id row \<notin> a_id ` set (appointments booked_store)"
        "a_id row = appointments_id_seq booked_store + 1"
    by blast
  have run: "createAppointment demo_ext 50 booked_store booking_body =
       (booked_store\<lparr>appointments_id_seq := 2, appointments := [booked_row, second_row],
                     last_timestamp := 250\<rparr>,
        (200, CreatedJson ''Appuntamento creato con successo'' second_row))"
    by (simp add: createAppointment_def insert_appointment_def appointment_values_def Let_def
          booking_body_def on_value_def input_def varchar_def text_in_def demo_conversions
          show_int_values ref_int4in_1 ref_day booked_appointments second_row_def booked_row_def)
       (use booked_appointments(5) in \<open>simp flip: set_map\<close>)
  with r have "row = second_row" by simp
  with p have s: "a_id second_row = 2"
    "a_id second_row \<notin> a_id ` set (appointments booked_store)"
    "status second_row = Some ''pending''" "rejection_reason second_row = None"
    "proposed_changes second_row = None"
    by (simp_all add: booked_appointments)
  have "map a_id (appointments booked_store) = [1]"
    by (simp add: booked_appointments)
  with run s show ?thesis by blast
qed

text \<open>
  Claim C4 as stated fails: an appointment whose required fields are all present is
  refused when its service reference is the identifier of no service. The column is
  declared \<^verbatim>\<open>REFERENCES services(id)\<close>, the store refuses the row, and the handler
  answers 500 and stores nothing.
\<close>

theorem createAppointment_dangling_service_counterexample:
  "truthy ((booking_body(''serviceId'' \<mapsto> JNum 999)) ''serviceId'')
   \<and> 999 \<notin> set (map s_id (services demo_store))
   \<and> snd (createAppointment demo_ext 100 demo_store (booking_body(''serviceId'' \<mapsto> JNum 999)))
       = (500, ErrorJson ''Errore creazione appuntamento'')
   \<and> appointments (fst (createAppointment demo_ext 100 demo_store
                           (booking_body(''serviceId'' \<mapsto> JNum 999)))) = []"
  by (simp add: createAppointment_def insert_appointment_def appointment_values_def Let_def
        booking_body_def on_value_def input_def varchar_def text_in_def demo_conversions
        show_int_values ref_int4in_999 ref_day demo_store_tables flip: set_map)

subsection \<open>C5: a missing required field\<close>

text \<open>
  Claim C5. When one of the five required fields is missing (or is otherwise not
  truthy: \<^verbatim>\<open>null\<close>, \<^verbatim>\<open>false\<close>, \<^verbatim>\<open>0\<close> or the empty string), the handler answers
  400. The answer is the same whatever the store holds, and the store is returned as
  it was: no statement is sent.
\<close>

theorem createAppointment_missing_field:
  fixes E :: "('d, 't, 'j) ext"
  assumes "\<not> truthy (b ''clientName'') \<or> \<not> truthy (b ''petName'') \<or> \<not> truthy (b ''serviceId'')
           \<or> \<not> truthy (b ''appointmentDate'') \<or> \<not> truthy (b ''appointmentTime'')"
  shows "createAppointment E now s b = (s, (400, ErrorJson ''Campi obbligatori mancanti''))"
  using assms by (auto simp: createAppointment_def Let_def)

theorem createAppointment_missing_field_witness:
  "(booking_body(''petName'' := None)) ''petName'' = None
   \<and> createAppointment demo_ext 200 demo_store (booking_body(''petName'' := None))
       = (demo_store, (400, ErrorJson ''Campi obbligatori mancanti''))"
proof -
  have h: "\<not> truthy ((booking_body(''petName'' := None)) ''petName'')"
    by simp
  from h createAppointment_missing_field
         [where b = "booking_body(''petName'' := None)" and E = demo_ext and now = 200
            and s = demo_store]
  show ?thesis by simp
qed

subsection \<open>C6: an identifier that references no appointment\<close>

text \<open>
  Claim C6, as amended. When the path segment is the identifier of no appointment, the
  store after the handler is the store before. The answer is NotFound, 404, when the
  segment reads as an integer and the store takes the parameters (no text among them
  holds the character NUL, the status fits \<^verbatim>\<open>VARCHAR(50)\<close>, the proposed changes
  are \<^verbatim>\<open>JSONB\<close>), and 500 when the segment does not read as an integer.
\<close>

theorem updateStatus_not_found:
  fixes E :: "('d, 't, 'j) ext"
  assumes absent: "\<forall>i. int4in E idp = Some i \<longrightarrow> i \<notin> a_id ` set (appointments s)"
  shows "fst (updateStatus E elapsed s idp b) = s
       \<and> (CHR 0x00 \<notin> set idp \<and> (\<exists>i. int4in E idp = Some i) \<and>
           (\<exists>st. on_value (varchar 50) (prepareValue E (b ''status'')) = Inr st) \<and>
           (\<exists>rr. on_value text_in (prepareValue E (b ''rejectionReason'')) = Inr rr) \<and>
           (\<exists>pc. on_value (input (jsonb_in E))
                    (map_option (JSON_stringify E) (b ''proposedChanges'')) = Inr pc)
           \<longrightarrow> snd (updateStatus E elapsed s idp b)
                 = (404, ErrorJson ''Appuntamento non trovato''))
       \<and> (int4in E idp = None
           \<longrightarrow> snd (updateStatus E elapsed s idp b)
                 = (500, ErrorJson ''Errore aggiornamento appuntamento''))"
proof (intro conjI impI)
  show "fst (updateStatus E elapsed s idp b) = s"
    unfolding updateStatus_store using absent by (rule update_appointment_status_store)
next
  assume "CHR 0x00 \<notin> set idp \<and> (\<exists>i. int4in E idp = Some i) \<and>
           (\<exists>st. on_value (varchar 50) (prepareValue E (b ''status'')) = Inr st) \<and>
           (\<exists>rr. on_value text_in (prepareValue E (b ''rejectionReason'')) = Inr rr) \<and>
           (\<exists>pc. on_value (input (jsonb_in E))
                    (map_option (JSON_stringify E) (b ''proposedChanges'')) = Inr pc)"
  then obtain i st rr pc where z: "CHR 0x00 \<notin> set idp" and i: "int4in E idp = Some i"
    and st: "on_value (varchar 50) (prepareValue E (b ''status'')) = Inr st"
    and rr: "on_value text_in (prepareValue E (b ''rejectionReason'')) = Inr rr"
    and pc: "on_value (input (jsonb_in E))
                    (map_option (JSON_stringify E) (b ''proposedChanges'')) = Inr pc"
    by blast
  from absent i have "\<forall>r \<in> set (appointments s). \<not> a_id r = i" by auto
  then have none: "filter (\<lambda>r. a_id r = i) (appointments s) = []"
    by (rule filter_Nil_find)
  show "snd (updateStatus E elapsed s idp b) = (404, ErrorJson ''Appuntamento non trovato'')"
    unfolding updateStatus_by_statement
      update_appointment_status_no_row [OF st rr pc z i none]
    by simp
next
  assume "int4in E idp = None"
  from update_appointment_status_refused_id [OF this]
  obtain e where
    "update_appointment_status E elapsed s (prepareValue E (b ''status''))
            (prepareValue E (b ''rejectionReason''))
            (map_option (JSON_stringify E) (b ''proposedChanges'')) (Some idp) = (s, Inl e)"
    by blast
  then show "snd (updateStatus E elapsed s idp b)
                 = (500, ErrorJson ''Errore aggiornamento appuntamento'')"
    unfolding updateStatus_by_statement by simp
qed

theorem updateStatus_not_found_witness:
  "int4in demo_ext ''2'' = Some 2 \<and> 2 \<notin> a_id ` set (appointments booked_store)
   \<and> CHR 0x00 \<notin> set ''2''
   \<and> updateStatus demo_ext 100 booked_store ''2'' reject_body
       = (booked_store, (404, ErrorJson ''Appuntamento non trovato''))
   \<and> int4in demo_ext ''due'' = None
   \<and> updateStatus demo_ext 100 booked_store ''due'' reject_body
       = (booked_store, (500, ErrorJson ''Errore aggiornamento appuntamento''))"
proof -
  have h0: "CHR 0x00 \<notin> set ''2''" by simp
  have h1: "int4in demo_ext ''2'' = Some 2"
    by (simp add: demo_conversions ref_int4in_def read_int_def is_digit_def)
  have h2: "2 \<notin> a_id ` set (appointments booked_store)"
    by (simp add: booked_appointments)
  have h3: "on_value (varchar 50) (prepareValue demo_ext (reject_body ''status''))
              = Inr (Some ''rejected'')"
    by (simp add: reject_body_def on_value_def varchar_def text_in_def)
  have h4: "int4in demo_ext ''due'' = None"
    by (simp add: demo_conversions ref_int4in_def read_int_def is_digit_def)
  have h5: "on_value text_in (prepareValue demo_ext (reject_body ''rejectionReason''))
              = Inr (Some ''full'')"
    by (simp add: reject_body_def on_value_def text_in_def)
  have a1: "\<forall>i. int4in demo_ext ''2'' = Some i \<longrightarrow> i \<notin> a_id ` set (appointments booked_store)"
    using h1 h2 by simp
  have a2: "\<forall>i. int4in demo_ext ''due'' = Some i \<longrightarrow> i \<notin> a_id ` set (appointments booked_store)"
    using h4 by simp
  from updateStatus_not_found [OF a1, where elapsed = 100 and b = reject_body] h0 h1 h3 h5
    reject_body_changes
  have a: "updateStatus demo_ext 100 booked_store ''2'' reject_body
       = (booked_store, (404, ErrorJson ''Appuntamento non trovato''))"
    by (metis prod.collapse)
  from updateStatus_not_found [OF a2, where elapsed = 100 and b = reject_body] h4
  have b: "updateStatus demo_ext 100 booked_store ''due'' reject_body
       = (booked_store, (500, ErrorJson ''Errore aggiornamento appuntamento''))"
    by (metis prod.collapse)
  from h0 h1 h2 h4 a b show ?thesis by blast
qed

text \<open>
  Claim C6 as stated fails: the path segment \<^verbatim>\<open>abc\<close> references no appointment,
  and the answer is 500, not 404. The store cannot read the segment as the
  \<^verbatim>\<open>INTEGER\<close> that \<^verbatim>\<open>id = $4\<close> compares, and refuses the statement.
\<close>

theorem updateStatus_malformed_id_counterexample:
  "map a_id (appointments booked_store) = [1]
   \<and> int4in demo_ext ''abc'' = None
   \<and> updateStatus demo_ext 100 booked_store ''abc'' confirm_body
       = (booked_store, (500, ErrorJson ''Errore aggiornamento appuntamento''))"
  by (simp add: updateStatus_by_statement update_appointment_status_def on_value_def input_def
        varchar_def text_in_def confirm_body_def demo_conversions ref_int4in_abc
        booked_appointments)

subsection \<open>C7: a login that is refused\<close>

text \<open>
  Claim C7, as amended. When the email and the password are non-empty strings, the
  email without the character NUL (which the store refuses in a parameter), and no
  stored user has the email or the password does not match the hash stored for it, the
  login answers Unauthorized, 401, with an error body, so without a token. When the
  email or the password is missing or empty, the login answers BadRequest, 400, also
  without a token.
\<close>

theorem login_unauthorized:
  fixes E :: "('d, 't, 'j) ext"
  shows "(b ''email'' = Some (JStr e) \<and> e \<noteq> [] \<and> CHR 0x00 \<notin> set e \<and>
          b ''password'' = Some (JStr p) \<and> p \<noteq> [] \<and>
          ((\<forall>u \<in> set (users s). u_email u \<noteq> e) \<or>
           (\<exists>u. find (\<lambda>u. u_email u = e) (users s) = Some u \<and> bcrypt_compare E p (u_password u) = Some False))
          \<longrightarrow> login E clock s b = (401, ErrorJson ''Credenziali non valide''))
       \<and> (\<not> truthy (b ''email'') \<or> \<not> truthy (b ''password'')
          \<longrightarrow> login E clock s b = (400, ErrorJson ''Email e password richiesti''))"
proof (intro conjI impI)
  assume a: "b ''email'' = Some (JStr e) \<and> e \<noteq> [] \<and> CHR 0x00 \<notin> set e \<and>
          b ''password'' = Some (JStr p) \<and> p \<noteq> [] \<and>
          ((\<forall>u \<in> set (users s). u_email u \<noteq> e) \<or>
           (\<exists>u. find (\<lambda>u. u_email u = e) (users s) = Some u \<and> bcrypt_compare E p (u_password u) = Some False))"
  then have t: "truthy (b ''email'')" "truthy (b ''password'')"
    and pv: "prepareValue E (b ''email'') = Some e" and clean: "CHR 0x00 \<notin> set e"
    by simp_all
  from a consider (unknown) "\<forall>u \<in> set (users s). u_email u \<noteq> e"
    | (mismatch) u where "find (\<lambda>u. u_email u = e) (users s) = Some u"
        "bcrypt_compare E p (u_password u) = Some False"
    by blast
  then show "login E clock s b = (401, ErrorJson ''Credenziali non valide'')"
  proof cases
    case unknown
    with clean have "select_users_by_email s (Some e) = Inr []" by (rule select_users_unknown)
    with t pv show ?thesis by (simp add: login_def)
  next
    case mismatch
    from select_users_known [OF clean mismatch(1)]
    obtain rest where "select_users_by_email s (Some e) = Inr (u # rest)"
      by blast
    with t pv a mismatch(2) show ?thesis
      by (simp add: login_def bcrypt_compare_js_def)
  qed
next
  assume "\<not> truthy (b ''email'') \<or> \<not> truthy (b ''password'')"
  then show "login E clock s b = (400, ErrorJson ''Email e password richiesti'')"
    by (auto simp: login_def)
qed

theorem login_unauthorized_witness:
  "login demo_ext 1000 demo_store (login_body ''nobody@example.com'' ''admin123'')
     = (401, ErrorJson ''Credenziali non valide'')
   \<and> login demo_ext 1000 demo_store (login_body ''admin@toelettatura.com'' ''wrong'')
     = (401, ErrorJson ''Credenziali non valide'')
   \<and> login demo_ext 1000 demo_store (login_body ''admin@toelettatura.com'' '''')
     = (400, ErrorJson ''Email e password richiesti'')"
proof -
  have a: "login demo_ext 1000 demo_store (login_body ''nobody@example.com'' ''admin123'')
     = (401, ErrorJson ''Credenziali non valide'')"
    using login_unauthorized
            [where b = "login_body ''nobody@example.com'' ''admin123''" and E = demo_ext
               and s = demo_store and e = "''nobody@example.com''" and p = "''admin123''"
               and clock = 1000]
    by (simp add: login_body_def demo_users)
  have b: "login demo_ext 1000 demo_store (login_body ''admin@toelettatura.com'' ''wrong'')
     = (401, ErrorJson ''Credenziali non valide'')"
    using login_unauthorized
            [where b = "login_body ''admin@toelettatura.com'' ''wrong''" and E = demo_ext
               and s = demo_store and e = "''admin@toelettatura.com''" and p = "''wrong''"
               and clock = 1000]
    by (simp add: login_body_def demo_users demo_compare)
  have c: "login demo_ext 1000 demo_store (login_body ''admin@toelettatura.com'' '''')
     = (400, ErrorJson ''Email e password richiesti'')"
    using login_unauthorized
            [where b = "login_body ''admin@toelettatura.com'' ''''" and E = demo_ext
               and s = demo_store and clock = 1000]
    by (simp add: login_body_def)
  from a b c show ?thesis by blast
qed

text \<open>
  Claim C7 as stated fails: the empty password does not match the administrator's
  hash, and the login answers 400, not 401.
\<close>

theorem login_empty_password_counterexample:
  "bcrypt_compare demo_ext '''' (u_password (hd (users demo_store))) = Some False
   \<and> login demo_ext 1000 demo_store (login_body ''admin@toelettatura.com'' '''')
       = (400, ErrorJson ''Email e password richiesti'')"
  by (simp add: demo_users demo_compare login_def login_body_def)

subsection \<open>C8: the catalog lists the active services by name\<close>

text \<open>
  Claim C8. For every store the handler answers 200 with rows that are exactly the
  services whose \<^verbatim>\<open>active\<close> is true, each as often as the table holds it, in
  ascending order of their names under the collation of the database. No row has
  another \<^verbatim>\<open>active\<close>, and when no service is active the answer is the empty
  sequence.
\<close>

theorem listServices_active_sorted:
  "\<exists>rows. listServices collate s = (200, ServicesJson rows)
     \<and> mset rows = mset (filter (\<lambda>r. active r = Some True) (services s))
     \<and> sorted (map (\<lambda>r. collate (s_name r)) rows)
     \<and> (\<forall>r \<in> set rows. active r = Some True)
     \<and> ((\<forall>r \<in> set (services s). active r \<noteq> Some True) \<longrightarrow> rows = [])"
proof -
  let ?rows = "select_active_services collate s"
  have m: "mset ?rows = mset (filter (\<lambda>r. active r = Some True) (services s))"
    by (rule select_active_services_props)
  have "set ?rows = set (filter (\<lambda>r. active r = Some True) (services s))"
    using m by (rule mset_eq_setD)
  then have a: "\<forall>r \<in> set ?rows. active r = Some True"
    by simp
  have e: "(\<forall>r \<in> set (services s). active r \<noteq> Some True) \<longrightarrow> ?rows = []"
    by (simp add: select_active_services_def filter_False)
  show ?thesis
    using m a e select_active_services_props(2) [of collate s]
    by (intro exI [of _ ?rows]) (simp add: listServices_def)
qed

theorem listServices_active_sorted_witness:
  "(\<exists>rows. listServices (\<lambda>n. n) demo_catalog = (200, ServicesJson rows)
      \<and> map s_name rows
          = [''Bagno e Spazzolatura'', ''Pacchetto Completo'', ''Pulizia Orecchie'', ''Taglio Unghie'']
      \<and> sorted (map s_name rows)
      \<and> list_all (\<lambda>r. active r = Some True) rows)
   \<and> listServices (\<lambda>n. n) (demo_store\<lparr>services := []\<rparr>) = (200, ServicesJson [])"
proof -
  from listServices_active_sorted [of "\<lambda>n. n" demo_catalog]
  obtain rows where r: "listServices (\<lambda>n. n) demo_catalog = (200, ServicesJson rows)"
    and s: "sorted (map (\<lambda>r. s_name r) rows)"
    and a: "\<forall>r \<in> set rows. active r = Some True"
    by (elim exE conjE)
  from r have "rows = select_active_services (\<lambda>n. n) demo_catalog"
    by (simp add: listServices_def)
  then have n: "map s_name rows
          = [''Bagno e Spazzolatura'', ''Pacchetto Completo'', ''Pulizia Orecchie'', ''Taglio Unghie'']"
    by (simp only: demo_catalog_names)
  from a have l: "list_all (\<lambda>r. active r = Some True) rows"
    by (simp only: list_all_iff)
  from listServices_active_sorted [of "\<lambda>n. n" "demo_store\<lparr>services := []\<rparr>"]
  obtain none where e: "listServices (\<lambda>n. n) (demo_store\<lparr>services := []\<rparr>)
                          = (200, ServicesJson none)"
    and m: "(\<forall>r \<in> set (services (demo_store\<lparr>services := []\<rparr>)). active r \<noteq> Some True)
              \<longrightarrow> none = []"
    by (elim exE conjE)
  from m have "none = []" by simp
  with e have e': "listServices (\<lambda>n. n) (demo_store\<lparr>services := []\<rparr>) = (200, ServicesJson [])"
    by simp
  have "\<exists>rows. listServices (\<lambda>n. n) demo_catalog = (200, ServicesJson rows)
      \<and> map s_name rows
          = [''Bagno e Spazzolatura'', ''Pacchetto Completo'', ''Pulizia Orecchie'', ''Taglio Unghie'']
      \<and> sorted (map s_name rows)
      \<and> list_all (\<lambda>r. active r = Some True) rows"
    using r n s l by (intro exI [of _ rows] conjI)
  then show ?thesis using e' by (rule conjI)
qed

subsection \<open>C9: an omitted reason or proposal is overwritten with null\<close>

text \<open>
  Claim C9, as amended. Let the path segment read as the identifier \<open>i\<close> of a stored
  appointment and let the store take the parameters of the request (no text among them
  holds the character NUL, the status fits \<^verbatim>\<open>VARCHAR(50)\<close>, the proposed changes
  are \<^verbatim>\<open>JSONB\<close>). Then the handler answers 200 with the written row, and when the
  request omits \<^verbatim>\<open>rejectionReason\<close> the row's \<^verbatim>\<open>rejection_reason\<close> is
  \<^verbatim>\<open>NULL\<close>, in the answer and in the store, whatever it was before; the same holds
  of \<^verbatim>\<open>proposedChanges\<close> and \<^verbatim>\<open>proposed_changes\<close>.
\<close>

theorem updateStatus_omitted_null:
  fixes E :: "('d, 't, 'j) ext"
  assumes id: "CHR 0x00 \<notin> set idp" "int4in E idp = Some i"
      "find (\<lambda>r. a_id r = i) (appointments s) = Some a"
    and st: "on_value (varchar 50) (prepareValue E (b ''status'')) = Inr st"
    and rr: "on_value text_in (prepareValue E (b ''rejectionReason'')) = Inr rr"
    and pc: "on_value (input (jsonb_in E)) (map_option (JSON_stringify E) (b ''proposedChanges''))
               = Inr pc"
  shows "\<exists>row. snd (updateStatus E elapsed s idp b) = (200, AppointmentJson row)
           \<and> (b ''rejectionReason'' = None \<longrightarrow>
                rejection_reason row = None \<and>
                (\<forall>r \<in> set (appointments (fst (updateStatus E elapsed s idp b))).
                    a_id r = i \<longrightarrow> rejection_reason r = None))
           \<and> (b ''proposedChanges'' = None \<longrightarrow>
                proposed_changes row = None \<and>
                (\<forall>r \<in> set (appointments (fst (updateStatus E elapsed s idp b))).
                    a_id r = i \<longrightarrow> proposed_changes r = None))"
proof -
  define w where "w = (\<lambda>r::('d, 't, 'j) appointment.
     r\<lparr>status := st, rejection_reason := rr,
       proposed_changes := pc, updated_at := last_timestamp s + int elapsed\<rparr>)"
  have w: "rejection_reason (w r) = rr" "proposed_changes (w r) = pc" for r
    by (simp_all add: w_def)
  from find_filter_hd [OF id(3)]
  obtain rest where rows: "filter (\<lambda>r. a_id r = i) (appointments s) = a # rest"
    by blast
  have u: "updateStatus E elapsed s idp b =
             (s\<lparr>appointments := map (\<lambda>r. if a_id r = i then w r else r) (appointments s),
                last_timestamp := last_timestamp s + int elapsed\<rparr>,
              (200, AppointmentJson (w a)))"
    unfolding updateStatus_by_statement
      update_appointment_status_written [OF st rr pc id(1,2) rows] w_def
    by simp
  have stored: "appointments (fst (updateStatus E elapsed s idp b))
                  = map (\<lambda>r. if a_id r = i then w r else r) (appointments s)"
    by (simp add: u)
  have written: "\<forall>r \<in> set (appointments (fst (updateStatus E elapsed s idp b))).
                   a_id r = i \<longrightarrow> r \<in> w ` set (appointments s)"
    unfolding stored by auto
  have reason: "\<forall>r \<in> set (appointments (fst (updateStatus E elapsed s idp b))).
                   a_id r = i \<longrightarrow> rejection_reason r = rr"
    using written w(1) by blast
  have changes: "\<forall>r \<in> set (appointments (fst (updateStatus E elapsed s idp b))).
                   a_id r = i \<longrightarrow> proposed_changes r = pc"
    using written w(2) by blast
  have no_reason: "b ''rejectionReason'' = None \<longrightarrow> rr = None"
    using rr by (auto simp: on_value_def)
  have no_changes: "b ''proposedChanges'' = None \<longrightarrow> pc = None"
    using pc by (auto simp: on_value_def)
  have answer: "snd (updateStatus E elapsed s idp b) = (200, AppointmentJson (w a))"
    by (simp add: u)
  show ?thesis
  proof (intro exI [of _ "w a"] conjI impI)
    show "snd (updateStatus E elapsed s idp b) = (200, AppointmentJson (w a))"
      by (rule answer)
  next
    assume "b ''rejectionReason'' = None"
    with no_reason show "rejection_reason (w a) = None" by (simp add: w(1))
  next
    assume "b ''rejectionReason'' = None"
    with no_reason reason
    show "\<forall>r \<in> set (appointments (fst (updateStatus E elapsed s idp b))).
            a_id r = i \<longrightarrow> rejection_reason r = None"
      by simp
  next
    assume "b ''proposedChanges'' = None"
    with no_changes show "proposed_changes (w a) = None" by (simp add: w(2))
  next
    assume "b ''proposedChanges'' = None"
    with no_changes changes
    show "\<forall>r \<in> set (appointments (fst (updateStatus E elapsed s idp b))).
            a_id r = i \<longrightarrow> proposed_changes r = None"
      by simp
  qed
qed

theorem updateStatus_omitted_null_witness:
  "CHR 0x00 \<notin> set ''1'' \<and> int4in demo_ext ''1'' = Some 1
   \<and> find (\<lambda>r. a_id r = 1) (appointments rejected_store) = Some rejected_row
   \<and> rejection_reason rejected_row = Some ''full''
   \<and> proposed_changes rejected_row = Some ''[10,30]''
   \<and> confirm_body ''rejectionReason'' = None \<and> confirm_body ''proposedChanges'' = None
   \<and> updateStatus demo_ext 100 rejected_store ''1'' confirm_body
       = (rejected_store\<lparr>appointments := [confirmed_row], last_timestamp := 400\<rparr>,
          (200, AppointmentJson confirmed_row))
   \<and> rejection_reason confirmed_row = None \<and> proposed_changes confirmed_row = None"
proof -
  have h0: "CHR 0x00 \<notin> set ''1''" by simp
  have h1: "int4in demo_ext ''1'' = Some 1"
    by (simp add: demo_conversions ref_int4in_1)
  have h2: "find (\<lambda>r. a_id r = 1) (appointments rejected_store) = Some rejected_row"
    by (simp add: rejected_appointments)
  have h3: "on_value (varchar 50) (prepareValue demo_ext (confirm_body ''status''))
              = Inr (Some ''confirmed'')"
    by (simp add: confirm_body_def on_value_def varchar_def text_in_def)
  have h4: "on_value (input (jsonb_in demo_ext))
              (map_option (JSON_stringify demo_ext) (confirm_body ''proposedChanges'')) = Inr None"
    by (simp add: confirm_body_def on_value_def)
  have h5: "on_value text_in (prepareValue demo_ext (confirm_body ''rejectionReason'')) = Inr None"
    by (simp add: confirm_body_def on_value_def)
  have o: "confirm_body ''rejectionReason'' = None" "confirm_body ''proposedChanges'' = None"
    by (simp_all add: confirm_body_def)
  have old: "rejection_reason rejected_row = Some ''full''"
    "proposed_changes rejected_row = Some ''[10,30]''"
    by (simp_all add: rejected_row_def)
  have rows: "filter (\<lambda>r. a_id r = 1) (appointments rejected_store) = rejected_row # []"
    by (simp add: rejected_appointments)
  have run: "updateStatus demo_ext 100 rejected_store ''1'' confirm_body
       = (rejected_store\<lparr>appointments := [confirmed_row], last_timestamp := 400\<rparr>,
          (200, AppointmentJson confirmed_row))"
    unfolding updateStatus_by_statement
      update_appointment_status_written [OF h3 h5 h4 h0 h1 rows]
    by (simp add: rejected_appointments confirmed_row_def)
  from updateStatus_omitted_null [OF h0 h1 h2 h3 h5 h4, where elapsed = 100] o
  obtain row where "snd (updateStatus demo_ext 100 rejected_store ''1'' confirm_body)
                      = (200, AppointmentJson row)"
    and "rejection_reason row = None" "proposed_changes row = None"
    by blast
  with run have new: "rejection_reason confirmed_row = None" "proposed_changes confirmed_row = None"
    by simp_all
  from h0 h1 h2 old o run new show ?thesis by blast
qed

text \<open>
  Claim C9 as stated fails for a call that the store refuses: a status of 51 characters
  with no \<^verbatim>\<open>rejectionReason\<close>, on an appointment that has one, is answered 500,
  and the stored rejection reason is kept.
\<close>

theorem updateStatus_refused_keeps_reason_counterexample:
  "map a_id (appointments rejected_store) = [1]
   \<and> [''status'' \<mapsto> JStr long_status] ''rejectionReason'' = None
   \<and> updateStatus demo_ext 100 rejected_store ''1'' [''status'' \<mapsto> JStr long_status]
       = (rejected_store, (500, ErrorJson ''Errore aggiornamento appuntamento''))
   \<and> map rejection_reason (appointments rejected_store) = [Some ''full'']"
  by (simp add: updateStatus_by_statement demo_update_refused rejected_appointments)
     (simp add: rejected_row_def)

subsection \<open>C10: the scheme word of the header is not checked\<close>





end
